theory Spec2Isabelle
  imports Complex_Main "HOL-Library.Multiset" "HOL-Library.Char_ord" "HOL-Library.List_Lexorder"
begin

section \<open>VidyaLok: the personalized recommendation engine\<close>

text \<open>
  A shallow embedding of \<^verbatim>\<open>recommendation-service\<close> (the file with
  \<^verbatim>\<open>getPersonalizedRecommendations\<close> and \<^verbatim>\<open>buildDatasetFallback\<close>).

  Conventions of the model:
  \<^item> a JavaScript \<^verbatim>\<open>number\<close> that holds a count, a limit or a score is an \<^typ>\<open>int\<close>
    (fractional limits and NaN are outside the model); a \<^verbatim>\<open>Date\<close> is its
    \<^verbatim>\<open>getTime()\<close> value, an \<^typ>\<open>int\<close> of milliseconds; the quotient in
    \<^verbatim>\<open>differenceInDays\<close> is an exact rational;
  \<^item> a \<^verbatim>\<open>Set\<close> is the list of its elements in insertion order, a \<^verbatim>\<open>Map\<close> the list
    of its entries in insertion order;
  \<^item> the store behind \<^verbatim>\<open>prisma\<close> is three tables (lists of rows) read at one instant;
    \<^verbatim>\<open>findMany\<close> filters a table, orders it with a stable sort and applies
    \<^verbatim>\<open>take\<close>;
  \<^item> the outcome of \<^verbatim>\<open>getAllBooks()\<close> is an input of the model: either the rows of the
    catalog snapshot or the error it threw;
  \<^item> \<^verbatim>\<open>String.prototype.localeCompare\<close> compares by the collation of the host's default
    locale, which the source does not fix: it is an input of the model too, a function
    from two strings to the sign the host returns;
  \<^item> the reads issued against the store and the snapshot, and the error written to the
    console, are recorded in a log, returned beside the result.
\<close>

subsection \<open>Data model\<close>

record RecommendationInput =
  userId :: string
  limit :: "int option"
  excludeBookIds :: "string list option"

text \<open>\<^verbatim>\<open>RecommendationCandidate\<close>: the selected columns of a row of the book table.\<close>

record RecommendationCandidate =
  b_id :: string
  b_title :: string
  b_author :: "string option"
  b_category :: string
  b_department :: string
  b_availableCopies :: int
  b_addedAt :: int

record PersonalizedRecommendation =
  r_id :: string
  r_title :: string
  r_author :: string
  r_category :: string
  r_department :: string
  r_availableCopies :: int
  r_score :: int
  r_reasons :: "string list"
  r_isNewArrival :: bool
  r_isPopular :: bool

record RecommendationContext =
  c_explicitInterests :: "string list"
  c_derivedCategories :: "string list"
  c_department :: "string option"
  c_fallbackUsed :: bool

record RecommendationResult =
  items :: "PersonalizedRecommendation list"
  ctx :: RecommendationContext

text \<open>The rows of the user and borrowing tables, with the columns the service reads.\<close>

record User =
  u_id :: string
  u_branch :: "string option"
  u_department :: "string option"
  u_interests :: "string list option"

record Borrowing =
  bw_userId :: string
  bw_bookId :: string
  bw_status :: string
  bw_borrowDate :: int

text \<open>\<^verbatim>\<open>LibraryBook\<close>: a row of the catalog snapshot (\<^verbatim>\<open>books-dataset\<close>).\<close>

record LibraryBook =
  lb_id :: string
  lb_department :: string
  lb_publisher :: string
  lb_author :: string
  lb_title :: string
  lb_copies :: int

text \<open>
  Everything one call reads from outside: the three tables, the outcome of
  \<^verbatim>\<open>getAllBooks()\<close> (\<open>Inl\<close> the error thrown), the host's \<^verbatim>\<open>localeCompare\<close>, and the
  two values of \<^verbatim>\<open>now()\<close>, the one taken in \<^verbatim>\<open>fetchPopularBookIds\<close> and the one taken
  in \<^verbatim>\<open>enrichCandidates\<close>.
\<close>

record World =
  users :: "User list"
  borrowings :: "Borrowing list"
  books :: "RecommendationCandidate list"
  snapshot :: "string + LibraryBook list"
  hostCollation :: "string \<Rightarrow> string \<Rightarrow> int"
  popularNow :: int
  enrichNow :: int

text \<open>
  The effects of a call, in the order of the source: the reads it can issue, and the
  \<^verbatim>\<open>console.error\<close> of the bridge with the error it reports.
\<close>

datatype Effect =
  FindUser | FindActiveBorrowings | FindRecentHistory | FindPopularBorrowings
  | FindPrimaryBooks | FindFallbackBooks | FindBooksByIds | LoadSnapshot
  | ConsoleError string

subsection \<open>JavaScript and Prisma primitives\<close>

text \<open>\<^verbatim>\<open>Set.prototype.add\<close> and \<^verbatim>\<open>new Set(iterable)\<close>: the first occurrence keeps its place.\<close>

definition set_add :: "'a \<Rightarrow> 'a list \<Rightarrow> 'a list" where
  "set_add x s = (if x \<in> set s then s else s @ [x])"

definition new_Set :: "'a list \<Rightarrow> 'a list" where
  "new_Set xs = foldl (\<lambda>s x. set_add x s) [] xs"

text \<open>
  \<^verbatim>\<open>Map.prototype.set\<close>, \<^verbatim>\<open>get\<close> and \<^verbatim>\<open>has\<close>: setting a key that is present replaces
  its value where it stands, a new key goes to the end.
\<close>

fun map_set :: "'k \<Rightarrow> 'v \<Rightarrow> ('k \<times> 'v) list \<Rightarrow> ('k \<times> 'v) list" where
  "map_set k v [] = [(k, v)]"
| "map_set k v ((k', v') # m) =
     (if k = k' then (k, v) # m else (k', v') # map_set k v m)"

definition map_get :: "('k \<times> 'v) list \<Rightarrow> 'k \<Rightarrow> 'v option" where
  "map_get m k = map_of m k"

definition map_has :: "('k \<times> 'v) list \<Rightarrow> 'k \<Rightarrow> bool" where
  "map_has m k = (map_of m k \<noteq> None)"

text \<open>
  \<^verbatim>\<open>Array.prototype.sort(cmp)\<close>: a stable sort (ECMAScript 2019); \<open>cmp a b \<le> 0\<close> keeps
  \<open>a\<close> before \<open>b\<close>. Written as insertion from the right.
\<close>

fun insertBy :: "('a \<Rightarrow> 'a \<Rightarrow> int) \<Rightarrow> 'a \<Rightarrow> 'a list \<Rightarrow> 'a list" where
  "insertBy cmp x [] = [x]"
| "insertBy cmp x (y # ys) =
     (if cmp x y \<le> 0 then x # y # ys else y # insertBy cmp x ys)"

definition js_sort :: "('a \<Rightarrow> 'a \<Rightarrow> int) \<Rightarrow> 'a list \<Rightarrow> 'a list" where
  "js_sort cmp xs = foldr (insertBy cmp) xs []"

text \<open>
  \<^verbatim>\<open>xs.slice(0, n)\<close>: a negative \<open>n\<close> counts from the end
  (\<^verbatim>\<open>end = max(length + n, 0)\<close>).
\<close>

definition js_slice0 :: "'a list \<Rightarrow> int \<Rightarrow> 'a list" where
  "js_slice0 xs n =
     (if 0 \<le> n then take (nat n) xs else take (length xs - nat (- n)) xs)"

text \<open>
  Prisma's \<^verbatim>\<open>orderBy: { key: 'desc' }\<close>, rows with equal keys staying in table order,
  and \<^verbatim>\<open>take: n\<close>, which with a negative \<open>n\<close> returns the last \<open>-n\<close> rows.
\<close>

definition orderByDesc :: "('a \<Rightarrow> int) \<Rightarrow> 'a list \<Rightarrow> 'a list" where
  "orderByDesc key xs = js_sort (\<lambda>a b. key b - key a) xs"

definition prisma_take :: "int \<Rightarrow> 'a list \<Rightarrow> 'a list" where
  "prisma_take n xs =
     (if 0 \<le> n then take (nat n) xs else drop (length xs - nat (- n)) xs)"

text \<open>
  String primitives, on ASCII: \<^verbatim>\<open>trim\<close> strips blanks at both ends, \<^verbatim>\<open>toLowerCase\<close>
  maps \<open>A\<close>..\<open>Z\<close>, \<^verbatim>\<open>includes\<close> is substring search.
\<close>

definition is_space :: "char \<Rightarrow> bool" where
  "is_space c = (c \<in> set [CHR '' '', CHR 0x09, CHR 0x0A, CHR 0x0B, CHR 0x0C, CHR 0x0D])"

definition trim :: "string \<Rightarrow> string" where
  "trim s = rev (dropWhile is_space (rev (dropWhile is_space s)))"

definition lower_char :: "char \<Rightarrow> char" where
  "lower_char c =
     (if (65::nat) \<le> of_char c \<and> of_char c \<le> (90::nat)
      then char_of (of_char c + (32::nat)) else c)"

definition toLowerCase :: "string \<Rightarrow> string" where
  "toLowerCase s = map lower_char s"

fun starts_with :: "string \<Rightarrow> string \<Rightarrow> bool" where
  "starts_with s [] = True"
| "starts_with [] (t # ts) = False"
| "starts_with (c # cs) (t # ts) = (c = t \<and> starts_with cs ts)"

fun str_includes :: "string \<Rightarrow> string \<Rightarrow> bool" where
  "str_includes [] t = (t = [])"
| "str_includes (c # cs) t = (starts_with (c # cs) t \<or> str_includes cs t)"


subsection \<open>Signal collection\<close>

definition NEW_ARRIVAL_DAYS :: rat where
  "NEW_ARRIVAL_DAYS = 60"

definition POPULAR_LOOKBACK_DAYS :: int where
  "POPULAR_LOOKBACK_DAYS = 90"

definition POPULAR_SAMPLE_SIZE :: int where
  "POPULAR_SAMPLE_SIZE = 300"

definition differenceInDays :: "int \<Rightarrow> int \<Rightarrow> rat" where
  "differenceInDays started ended =
     (let diffMs = ended - started in of_int diffMs / (1000 * 60 * 60 * 24))"

text \<open>
  \<^verbatim>\<open>buildExcludeSet\<close>: the caller's ids, then the book id of each active borrowing whose
  id is truthy (not the empty string).
\<close>

definition buildExcludeSet :: "RecommendationInput \<Rightarrow> Borrowing list \<Rightarrow> string list" where
  "buildExcludeSet input activeBorrowings =
     foldl (\<lambda>exclude borrowing.
              if bw_bookId borrowing \<noteq> [] then set_add (bw_bookId borrowing) exclude
              else exclude)
       (new_Set (case excludeBookIds input of None \<Rightarrow> [] | Some ids \<Rightarrow> ids))
       activeBorrowings"

text \<open>
  A counter map as both \<^verbatim>\<open>collectTopCategoriesFromHistory\<close> and
  \<^verbatim>\<open>fetchPopularBookIds\<close> build it: \<^verbatim>\<open>counts.set(k, (counts.get(k) ?? 0) + 1)\<close>.
\<close>

definition bump :: "'k \<Rightarrow> ('k \<times> int) list \<Rightarrow> ('k \<times> int) list" where
  "bump k counts =
     map_set k ((case map_get counts k of None \<Rightarrow> 0 | Some n \<Rightarrow> n) + 1) counts"

text \<open>
  \<^verbatim>\<open>collectTopCategoriesFromHistory\<close>: an entry is the joined book's category, \<open>None\<close>
  when the book or its category is missing; the callback of \<^verbatim>\<open>history.forEach\<close> trims
  it, and skips it when nothing is left.
\<close>

definition countCategory :: "(string \<times> int) list \<Rightarrow> string option \<Rightarrow> (string \<times> int) list" where
  "countCategory counts entry =
     (case map_option trim entry of
        None \<Rightarrow> counts
      | Some category \<Rightarrow> if category = [] then counts else bump category counts)"

definition collectTopCategoriesFromHistory :: "string option list \<Rightarrow> string list" where
  "collectTopCategoriesFromHistory history =
     (let counts = foldl countCategory [] history;
          sorted = js_sort (\<lambda>a b. snd b - snd a) (filter (\<lambda>(_, count). 2 \<le> count) counts)
      in map fst sorted)"

text \<open>The four reads of the borrowing and user tables.\<close>

definition findUser :: "World \<Rightarrow> string \<Rightarrow> User option" where
  "findUser w uid = find (\<lambda>u. u_id u = uid) (users w)"

definition findActiveBorrowings :: "World \<Rightarrow> User \<Rightarrow> Borrowing list" where
  "findActiveBorrowings w user =
     filter (\<lambda>b. bw_userId b = u_id user
                 \<and> bw_status b \<in> set [''BORROWED'', ''OVERDUE'', ''RENEWED''])
       (borrowings w)"

definition findRecentHistory :: "World \<Rightarrow> User \<Rightarrow> string option list" where
  "findRecentHistory w user =
     map (\<lambda>b. map_option b_category (find (\<lambda>k. b_id k = bw_bookId b) (books w)))
       (prisma_take 40
          (orderByDesc bw_borrowDate
             (filter (\<lambda>b. bw_userId b = u_id user) (borrowings w))))"

definition fetchPopularBookIds :: "World \<Rightarrow> string list" where
  "fetchPopularBookIds w =
     (let lookbackStart = popularNow w - POPULAR_LOOKBACK_DAYS * 24 * 60 * 60 * 1000;
          sample = prisma_take POPULAR_SAMPLE_SIZE
                     (orderByDesc bw_borrowDate
                        (filter (\<lambda>b. lookbackStart \<le> bw_borrowDate b) (borrowings w)));
          counts = foldl (\<lambda>counts entry.
                            if bw_bookId entry = [] then counts
                            else bump (bw_bookId entry) counts)
                     [] sample
      in map fst (js_sort (\<lambda>a b. snd b - snd a) counts))"

subsection \<open>Candidate retrieval\<close>

text \<open>JavaScript truthiness of a \<^verbatim>\<open>string | null\<close>: neither null nor the empty string.\<close>

definition truthy :: "string option \<Rightarrow> bool" where
  "truthy s = (case s of None \<Rightarrow> False | Some t \<Rightarrow> t \<noteq> [])"

text \<open>
  \<^verbatim>\<open>fetchCandidateBooks\<close>: the \<^verbatim>\<open>OR\<close> clause is present only when a category list or a
  department is; without it every available, non-excluded row matches.
\<close>

definition fetchCandidateBooks ::
  "World \<Rightarrow> string list \<Rightarrow> string option \<Rightarrow> string list \<Rightarrow> int
   \<Rightarrow> RecommendationCandidate list" where
  "fetchCandidateBooks w categories department excludeIds lmt =
     (let orClauses =
            (if categories \<noteq> [] then [\<lambda>b. b_category b \<in> set categories] else [])
            @ (if truthy department then [\<lambda>b. Some (b_department b) = department] else []);
          cond = (\<lambda>b. 0 < b_availableCopies b \<and> b_id b \<notin> set excludeIds
                       \<and> (length orClauses = 0 \<or> list_ex (\<lambda>clause. clause b) orClauses))
      in prisma_take lmt (orderByDesc b_addedAt (filter cond (books w))))"

text \<open>
  \<^verbatim>\<open>fetchBooksByIds\<close>: no read for an empty id list; otherwise the rows found, in the
  order of \<^verbatim>\<open>bookIds\<close>, ids without a row dropped.
\<close>

definition fetchBooksByIds :: "World \<Rightarrow> string list \<Rightarrow> RecommendationCandidate list" where
  "fetchBooksByIds w bookIds =
     (if bookIds = [] then []
      else let found = filter (\<lambda>b. b_id b \<in> set bookIds) (books w);
               bookMap = foldl (\<lambda>m book. map_set (b_id book) book m) [] found
           in List.map_filter (map_get bookMap) bookIds)"

subsection \<open>Scoring\<close>

text \<open>One signal of the scorer: \<^verbatim>\<open>if (fired) { score += delta; reasons.add(reason) }\<close>.\<close>

definition signal :: "bool \<Rightarrow> int \<Rightarrow> string \<Rightarrow> int \<times> string list \<Rightarrow> int \<times> string list" where
  "signal fired delta reason sr =
     (if fired then (fst sr + delta, set_add reason (snd sr)) else sr)"

definition isNewArrival_of :: "int \<Rightarrow> RecommendationCandidate \<Rightarrow> bool" where
  "isNewArrival_of nowDate candidate =
     (let daysSinceAdded = \<bar>differenceInDays (b_addedAt candidate) nowDate\<bar>
      in daysSinceAdded \<le> NEW_ARRIVAL_DAYS)"

text \<open>The body of the \<^verbatim>\<open>map\<close> callback of \<^verbatim>\<open>enrichCandidates\<close>.\<close>

definition enrichCandidate ::
  "int \<Rightarrow> RecommendationContext \<Rightarrow> string list \<Rightarrow> string list \<Rightarrow> RecommendationCandidate
   \<Rightarrow> PersonalizedRecommendation" where
  "enrichCandidate nowDate context popularIds derivedCategorySet candidate =
     (let sr1 = signal (b_category candidate \<in> set (c_explicitInterests context)) 3
                  (''Matches your interest in '' @ b_category candidate) (0, []);
          sr2 = signal (b_category candidate \<in> set derivedCategorySet) 2
                  (''You often borrow '' @ b_category candidate @ '' titles'') sr1;
          sr3 = signal (truthy (c_department context)
                         \<and> Some (b_department candidate) = c_department context) 2
                  ''From your department collection'' sr2;
          isNewArrival = isNewArrival_of nowDate candidate;
          sr4 = signal isNewArrival 1 ''New arrival this term'' sr3;
          isPopular = (b_id candidate \<in> set popularIds);
          sr5 = signal isPopular 1 ''Popular with other students'' sr4;
          sr6 = (if fst sr5 = 0 then (1, set_add ''Handpicked by the library team'' (snd sr5))
                 else sr5)
      in \<lparr> r_id = b_id candidate,
           r_title = b_title candidate,
           r_author = (case b_author candidate of None \<Rightarrow> ''Unknown author'' | Some a \<Rightarrow> a),
           r_category = b_category candidate,
           r_department = b_department candidate,
           r_availableCopies = b_availableCopies candidate,
           r_score = fst sr6,
           r_reasons = snd sr6,
           r_isNewArrival = isNewArrival,
           r_isPopular = isPopular \<rparr>)"

definition enrichCandidates ::
  "int \<Rightarrow> RecommendationCandidate list \<Rightarrow> RecommendationContext \<Rightarrow> string list \<Rightarrow> string list
   \<Rightarrow> PersonalizedRecommendation list" where
  "enrichCandidates nowDate candidates context popularIds derivedCategorySet =
     map (enrichCandidate nowDate context popularIds derivedCategorySet) candidates"

text \<open>The comparator of the final \<^verbatim>\<open>sort\<close> of the scored path.\<close>

definition compareScored :: "PersonalizedRecommendation \<Rightarrow> PersonalizedRecommendation \<Rightarrow> int" where
  "compareScored a b =
     (if r_score b \<noteq> r_score a then r_score b - r_score a
      else r_availableCopies b - r_availableCopies a)"

subsection \<open>The dataset bridge\<close>

record ScoredBook =
  sb_book :: LibraryBook
  sb_score :: int
  sb_reasons :: "string list"
  sb_matchedInterest :: "string option"

text \<open>
  \<^verbatim>\<open>explicitInterests[index]\<close> (\<open>None\<close> is \<^verbatim>\<open>undefined\<close>) and its rendering in a
  template literal.
\<close>

definition js_index :: "'a list \<Rightarrow> nat \<Rightarrow> 'a option" where
  "js_index xs i = (if i < length xs then Some (xs ! i) else None)"

definition template :: "string option \<Rightarrow> string" where
  "template s = (case s of None \<Rightarrow> ''undefined'' | Some t \<Rightarrow> t)"

text \<open>
  The callback of \<^verbatim>\<open>interestTokens.forEach((token, index) => ...)\<close>, on the mutable
  locals \<^verbatim>\<open>score\<close>, \<^verbatim>\<open>reasons\<close> and \<^verbatim>\<open>matchedInterest\<close>.
\<close>

definition matchToken ::
  "string list \<Rightarrow> string \<Rightarrow> int \<times> string list \<times> string option \<Rightarrow> string \<times> nat
   \<Rightarrow> int \<times> string list \<times> string option" where
  "matchToken explicitInterests searchable st ti =
     (case st of (score, reasons, matchedInterest) \<Rightarrow>
      case ti of (token, index) \<Rightarrow>
        if str_includes searchable token
        then (let originalInterest = js_index explicitInterests index
              in (score + 3,
                  set_add (''Matches your interest in '' @ template originalInterest) reasons,
                  if \<not> truthy matchedInterest then originalInterest else matchedInterest))
        else (score, reasons, matchedInterest))"

text \<open>The \<^verbatim>\<open>department && ...\<close> test of the bridge, case-insensitive.\<close>

definition departmentMatches :: "string option \<Rightarrow> LibraryBook \<Rightarrow> bool" where
  "departmentMatches department book =
     (truthy department
      \<and> Some (toLowerCase (lb_department book)) = map_option toLowerCase department)"

text \<open>The body of the \<^verbatim>\<open>map\<close> callback that scores one snapshot row.\<close>

definition scoreBook :: "string list \<Rightarrow> string list \<Rightarrow> string option \<Rightarrow> LibraryBook \<Rightarrow> ScoredBook" where
  "scoreBook explicitInterests interestTokens department book =
     (let searchable = toLowerCase (lb_title book @ '' '' @ lb_author book);
          st1 = foldl (matchToken explicitInterests searchable) (1, [], None)
                  (zip interestTokens [0 ..< length interestTokens]);
          st2 = (if departmentMatches department book
                 then (fst st1 + 2, set_add ''From your department collection'' (fst (snd st1)),
                       snd (snd st1))
                 else st1);
          st3 = (if 5 \<le> lb_copies book
                 then (fst st2 + 1, set_add ''Popular in the general catalog'' (fst (snd st2)),
                       snd (snd st2))
                 else st2)
      in \<lparr> sb_book = book, sb_score = fst st3, sb_reasons = fst (snd st3),
           sb_matchedInterest = snd (snd st3) \<rparr>)"

text \<open>
  The comparator of the bridge's \<^verbatim>\<open>sort\<close>; \<open>localeCompare\<close> is the host's
  \<^verbatim>\<open>String.prototype.localeCompare\<close>, applied as \<^verbatim>\<open>a.book.title.localeCompare(b.book.title)\<close>.
\<close>

definition compareDataset ::
  "(string \<Rightarrow> string \<Rightarrow> int) \<Rightarrow> ScoredBook \<Rightarrow> ScoredBook \<Rightarrow> int" where
  "compareDataset localeCompare a b =
     (if sb_score b \<noteq> sb_score a then sb_score b - sb_score a
      else if lb_copies (sb_book b) \<noteq> lb_copies (sb_book a)
           then lb_copies (sb_book b) - lb_copies (sb_book a)
      else localeCompare (lb_title (sb_book a)) (lb_title (sb_book b)))"

definition toRecommendation :: "ScoredBook \<Rightarrow> PersonalizedRecommendation" where
  "toRecommendation sb =
     (let book = sb_book sb in
      \<lparr> r_id = ''dataset-'' @ lb_id book,
        r_title = lb_title book,
        r_author = (if lb_author book \<noteq> [] then lb_author book else ''Unknown author''),
        r_category = (case sb_matchedInterest sb of None \<Rightarrow> lb_department book | Some i \<Rightarrow> i),
        r_department = lb_department book,
        r_availableCopies = max (lb_copies book) 1,
        r_score = sb_score sb,
        r_reasons = (if length (sb_reasons sb) \<noteq> 0 then sb_reasons sb
                     else [''Featured from the library catalog'']),
        r_isNewArrival = False,
        r_isPopular = (5 \<le> lb_copies book) \<rparr>)"

text \<open>The locals \<^verbatim>\<open>interestTokens\<close>, \<^verbatim>\<open>scored\<close> and \<^verbatim>\<open>sorted\<close> of the bridge.\<close>

definition interestTokens_of :: "string list \<Rightarrow> string list" where
  "interestTokens_of explicitInterests =
     filter (\<lambda>t. t \<noteq> []) (map (\<lambda>interest. toLowerCase (trim interest)) explicitInterests)"

definition datasetScored ::
  "LibraryBook list \<Rightarrow> string list \<Rightarrow> string option \<Rightarrow> string list \<Rightarrow> ScoredBook list" where
  "datasetScored allBooks explicitInterests department excludeIds =
     map (scoreBook explicitInterests (interestTokens_of explicitInterests) department)
       (filter (\<lambda>book. lb_id book \<notin> set excludeIds) allBooks)"

definition datasetSorted ::
  "(string \<Rightarrow> string \<Rightarrow> int) \<Rightarrow> LibraryBook list \<Rightarrow> string list \<Rightarrow> string option \<Rightarrow> int
   \<Rightarrow> string list \<Rightarrow> ScoredBook list" where
  "datasetSorted localeCompare allBooks explicitInterests department lmt excludeIds =
     js_slice0
       (js_sort (compareDataset localeCompare)
          (datasetScored allBooks explicitInterests department excludeIds))
       lmt"

text \<open>
  The \<^verbatim>\<open>try\<close> block of \<^verbatim>\<open>buildDatasetFallback\<close>: \<open>Inl\<close> is the error thrown by
  \<^verbatim>\<open>getAllBooks()\<close>, which leaves the block at once.
\<close>

definition datasetTry ::
  "(string \<Rightarrow> string \<Rightarrow> int) \<Rightarrow> string + LibraryBook list \<Rightarrow> string list \<Rightarrow> string option
   \<Rightarrow> int \<Rightarrow> string list \<Rightarrow> string + PersonalizedRecommendation list" where
  "datasetTry localeCompare loaded explicitInterests department lmt excludeIds =
     (case loaded of
        Inl error \<Rightarrow> Inl error
      | Inr allBooks \<Rightarrow>
          if length allBooks = 0 then Inr []
          else Inr (map toRecommendation
                      (datasetSorted localeCompare allBooks explicitInterests department lmt
                         excludeIds)))"

text \<open>\<^verbatim>\<open>buildDatasetFallback\<close>: the \<^verbatim>\<open>catch\<close> logs the error and returns the empty list.\<close>

definition buildDatasetFallback ::
  "(string \<Rightarrow> string \<Rightarrow> int) \<Rightarrow> string + LibraryBook list \<Rightarrow> string list \<Rightarrow> string option
   \<Rightarrow> int \<Rightarrow> string list \<Rightarrow> PersonalizedRecommendation list" where
  "buildDatasetFallback localeCompare loaded explicitInterests department lmt excludeIds =
     (case datasetTry localeCompare loaded explicitInterests department lmt excludeIds of
        Inl error \<Rightarrow> []
      | Inr recommendations \<Rightarrow> recommendations)"

subsection \<open>The local values of \<^verbatim>\<open>getPersonalizedRecommendations\<close>\<close>

text \<open>
  Each \<^verbatim>\<open>const\<close> of the function body, as a function of the world, the input and the
  user row found, in the order of the source.
\<close>

definition resolveLimit :: "RecommendationInput \<Rightarrow> int" where
  "resolveLimit input = (case limit input of None \<Rightarrow> 6 | Some n \<Rightarrow> n)"

definition excludeIds_of :: "World \<Rightarrow> RecommendationInput \<Rightarrow> User \<Rightarrow> string list" where
  "excludeIds_of w input user = buildExcludeSet input (findActiveBorrowings w user)"

definition derivedCategories_of :: "World \<Rightarrow> User \<Rightarrow> string list" where
  "derivedCategories_of w user = collectTopCategoriesFromHistory (findRecentHistory w user)"

definition explicitInterests_of :: "User \<Rightarrow> string list" where
  "explicitInterests_of user =
     filter (\<lambda>s. s \<noteq> [])
       (new_Set (case u_interests user of None \<Rightarrow> [] | Some interests \<Rightarrow> interests))"

definition userDepartment_of :: "User \<Rightarrow> string option" where
  "userDepartment_of user =
     (case u_branch user of Some branch \<Rightarrow> Some branch | None \<Rightarrow> u_department user)"

definition popularIdSet_of :: "World \<Rightarrow> string list" where
  "popularIdSet_of w = new_Set (js_slice0 (fetchPopularBookIds w) 20)"

definition candidateCategories_of :: "World \<Rightarrow> User \<Rightarrow> string list" where
  "candidateCategories_of w user =
     new_Set (explicitInterests_of user @ derivedCategories_of w user)"

definition primaryCandidates_of ::
  "World \<Rightarrow> RecommendationInput \<Rightarrow> User \<Rightarrow> RecommendationCandidate list" where
  "primaryCandidates_of w input user =
     fetchCandidateBooks w (candidateCategories_of w user) (userDepartment_of user)
       (excludeIds_of w input user) (resolveLimit input * 3)"

text \<open>\<^verbatim>\<open>candidateMap\<close> after the primary tier.\<close>

definition primaryMap_of ::
  "World \<Rightarrow> RecommendationInput \<Rightarrow> User \<Rightarrow> (string \<times> RecommendationCandidate) list" where
  "primaryMap_of w input user =
     foldl (\<lambda>m candidate. map_set (b_id candidate) candidate m) []
       (primaryCandidates_of w input user)"

text \<open>The guard \<^verbatim>\<open>candidateMap.size < limit\<close> of the broad fallback tier.\<close>

definition fallbackRuns :: "World \<Rightarrow> RecommendationInput \<Rightarrow> User \<Rightarrow> bool" where
  "fallbackRuns w input user =
     (int (length (primaryMap_of w input user)) < resolveLimit input)"

definition fallbackBooks_of ::
  "World \<Rightarrow> RecommendationInput \<Rightarrow> User \<Rightarrow> RecommendationCandidate list" where
  "fallbackBooks_of w input user =
     prisma_take (resolveLimit input * 3)
       (orderByDesc b_addedAt
          (filter (\<lambda>b. 0 < b_availableCopies b \<and> b_id b \<notin> set (excludeIds_of w input user))
             (books w)))"

text \<open>\<^verbatim>\<open>if (!candidateMap.has(candidate.id)) candidateMap.set(candidate.id, candidate)\<close>.\<close>

definition setIfAbsent ::
  "(string \<times> RecommendationCandidate) list \<Rightarrow> RecommendationCandidate
   \<Rightarrow> (string \<times> RecommendationCandidate) list" where
  "setIfAbsent m candidate =
     (if \<not> map_has m (b_id candidate) then map_set (b_id candidate) candidate m else m)"

definition fallbackMap_of ::
  "World \<Rightarrow> RecommendationInput \<Rightarrow> User \<Rightarrow> (string \<times> RecommendationCandidate) list" where
  "fallbackMap_of w input user =
     foldl setIfAbsent (primaryMap_of w input user) (fallbackBooks_of w input user)"

text \<open>The guard of the popularity top-up, inside the fallback branch.\<close>

definition popularRuns :: "World \<Rightarrow> RecommendationInput \<Rightarrow> User \<Rightarrow> bool" where
  "popularRuns w input user =
     (fallbackRuns w input user
      \<and> int (length (fallbackMap_of w input user)) < resolveLimit input
      \<and> length (popularIdSet_of w) \<noteq> 0)"

definition remainingPopularIds_of :: "World \<Rightarrow> RecommendationInput \<Rightarrow> User \<Rightarrow> string list" where
  "remainingPopularIds_of w input user =
     filter (\<lambda>bookId. \<not> map_has (fallbackMap_of w input user) bookId
                       \<and> bookId \<notin> set (excludeIds_of w input user))
       (popularIdSet_of w)"

definition popularBooks_of ::
  "World \<Rightarrow> RecommendationInput \<Rightarrow> User \<Rightarrow> RecommendationCandidate list" where
  "popularBooks_of w input user =
     fetchBooksByIds w (js_slice0 (remainingPopularIds_of w input user) (resolveLimit input * 2))"

text \<open>\<^verbatim>\<open>candidateMap\<close> when the scorer reads it.\<close>

definition candidateMap_of ::
  "World \<Rightarrow> RecommendationInput \<Rightarrow> User \<Rightarrow> (string \<times> RecommendationCandidate) list" where
  "candidateMap_of w input user =
     (if fallbackRuns w input user
      then (if popularRuns w input user
            then foldl setIfAbsent (fallbackMap_of w input user) (popularBooks_of w input user)
            else fallbackMap_of w input user)
      else primaryMap_of w input user)"

definition enriched_of ::
  "World \<Rightarrow> RecommendationInput \<Rightarrow> User \<Rightarrow> PersonalizedRecommendation list" where
  "enriched_of w input user =
     enrichCandidates (enrichNow w) (map snd (candidateMap_of w input user))
       \<lparr> c_explicitInterests = explicitInterests_of user,
         c_derivedCategories = derivedCategories_of w user,
         c_department = userDepartment_of user,
         c_fallbackUsed = fallbackRuns w input user \<rparr>
       (popularIdSet_of w)
       (new_Set (derivedCategories_of w user))"

text \<open>\<^verbatim>\<open>items\<close> as the scored path leaves it: sorted, then sliced.\<close>

definition scoredItems_of ::
  "World \<Rightarrow> RecommendationInput \<Rightarrow> User \<Rightarrow> PersonalizedRecommendation list" where
  "scoredItems_of w input user =
     js_slice0 (js_sort compareScored (enriched_of w input user)) (resolveLimit input)"

definition datasetFallback_of ::
  "World \<Rightarrow> RecommendationInput \<Rightarrow> User \<Rightarrow> PersonalizedRecommendation list" where
  "datasetFallback_of w input user =
     buildDatasetFallback (hostCollation w) (snapshot w) (explicitInterests_of user)
       (userDepartment_of user) (resolveLimit input) (excludeIds_of w input user)"

text \<open>
  What a call of \<^verbatim>\<open>buildDatasetFallback\<close> does beside returning: it loads the snapshot,
  and its \<^verbatim>\<open>catch\<close> writes the error to the console.
\<close>

definition datasetEffects :: "string + LibraryBook list \<Rightarrow> Effect list" where
  "datasetEffects loaded =
     LoadSnapshot # (case loaded of Inl error \<Rightarrow> [ConsoleError error] | Inr allBooks \<Rightarrow> [])"

subsection \<open>\<^verbatim>\<open>getPersonalizedRecommendations\<close>\<close>

text \<open>
  The result and the log of effects. The dataset bridge is called when the scored list is
  empty, and replaces it (setting \<^verbatim>\<open>fallbackUsed\<close>) when what it returns is not empty.
\<close>

definition getPersonalizedRecommendations ::
  "World \<Rightarrow> RecommendationInput \<Rightarrow> RecommendationResult \<times> Effect list" where
  "getPersonalizedRecommendations w input =
     (case findUser w (userId input) of
        None \<Rightarrow>
          (\<lparr> items = [],
             ctx = \<lparr> c_explicitInterests = [], c_derivedCategories = [],
                     c_department = None, c_fallbackUsed = True \<rparr> \<rparr>,
           [FindUser])
      | Some user \<Rightarrow>
          (let scored = scoredItems_of w input user;
               bridgeRuns = (length scored = 0);
               datasetFallback = datasetFallback_of w input user;
               bridged = (bridgeRuns \<and> length datasetFallback \<noteq> 0)
           in (\<lparr> items = (if bridged then datasetFallback else scored),
                 ctx = \<lparr> c_explicitInterests = explicitInterests_of user,
                         c_derivedCategories = derivedCategories_of w user,
                         c_department = userDepartment_of user,
                         c_fallbackUsed = (fallbackRuns w input user \<or> bridged) \<rparr> \<rparr>,
               [FindUser, FindActiveBorrowings, FindRecentHistory, FindPopularBorrowings,
                FindPrimaryBooks]
               @ (if fallbackRuns w input user then [FindFallbackBooks] else [])
               @ (if popularRuns w input user
                     \<and> js_slice0 (remainingPopularIds_of w input user) (resolveLimit input * 2) \<noteq> []
                  then [FindBooksByIds] else [])
               @ (if bridgeRuns then datasetEffects (snapshot w) else []))))"

subsection \<open>The score as the specification words it\<close>

text \<open>
  Claim C4 gives the score of a candidate as the sum of five deltas: 3 for a category
  among the explicit interests, 2 for a category among the derived categories, 2 for a
  department equal to the affiliation, 1 for an age of at most 60 days at evaluation
  time, 1 for an id in the popular set. This definition follows those words, not the
  code; \<open>enrichCandidate\<close> above is the code.
\<close>

definition spec_score ::
  "int \<Rightarrow> string list \<Rightarrow> string list \<Rightarrow> string option \<Rightarrow> string list
   \<Rightarrow> RecommendationCandidate \<Rightarrow> int" where
  "spec_score nowDate interests derived affiliation popular candidate =
     (if b_category candidate \<in> set interests then 3 else 0)
     + (if b_category candidate \<in> set derived then 2 else 0)
     + (if Some (b_department candidate) = affiliation then 2 else 0)
     + (if nowDate - b_addedAt candidate \<le> 60 * 86400000 then 1 else 0)
     + (if b_id candidate \<in> set popular then 1 else 0)"

subsection \<open>Concrete worlds\<close>

text \<open>
  A small library: user \<open>u\<close> of branch \<open>CE\<close> with the interest \<open>CS\<close>, who borrowed book
  \<open>h1\<close> three times (once still out), and a second user who borrowed \<open>b1\<close>. Times are
  in days times \<open>msPerDay\<close>; the call is made on day 1000.
\<close>

definition msPerDay :: int where
  "msPerDay = 86400000"

definition mkBook :: "string \<Rightarrow> string \<Rightarrow> string \<Rightarrow> int \<Rightarrow> int \<Rightarrow> RecommendationCandidate" where
  "mkBook i c d n t =
     \<lparr> b_id = i, b_title = ''T-'' @ i, b_author = None, b_category = c, b_department = d,
       b_availableCopies = n, b_addedAt = t \<rparr>"

definition mkBorrowing :: "string \<Rightarrow> string \<Rightarrow> string \<Rightarrow> int \<Rightarrow> Borrowing" where
  "mkBorrowing u b s t = \<lparr> bw_userId = u, bw_bookId = b, bw_status = s, bw_borrowDate = t \<rparr>"

definition mkLibraryBook :: "string \<Rightarrow> string \<Rightarrow> string \<Rightarrow> int \<Rightarrow> LibraryBook" where
  "mkLibraryBook i t d n =
     \<lparr> lb_id = i, lb_department = d, lb_publisher = ''p'', lb_author = [], lb_title = t,
       lb_copies = n \<rparr>"

text \<open>
  A collation for the concrete worlds: titles are compared without regard to case
  first, and on a tie the one that is greater by character codes, so the one with the
  lower-case letter at the first difference, comes first (\<open>a\<close>, \<open>A\<close>, \<open>b\<close>, \<open>B\<close>).
\<close>

definition demoCollation :: "string \<Rightarrow> string \<Rightarrow> int" where
  "demoCollation a b =
     (if toLowerCase a < toLowerCase b then - 1
      else if toLowerCase b < toLowerCase a then 1
      else if b < a then - 1
      else if a < b then 1
      else 0)"

definition demoUser :: User where
  "demoUser = \<lparr> u_id = ''u'', u_branch = Some ''CE'', u_department = None,
                u_interests = Some [''CS''] \<rparr>"

definition demoWorld :: World where
  "demoWorld =
     \<lparr> users = [demoUser],
       borrowings =
         [mkBorrowing ''u'' ''h1'' ''RETURNED'' (990 * msPerDay),
          mkBorrowing ''u'' ''h1'' ''RETURNED'' (991 * msPerDay),
          mkBorrowing ''u'' ''h1'' ''BORROWED'' (992 * msPerDay),
          mkBorrowing ''v'' ''b1'' ''RETURNED'' (995 * msPerDay)],
       books =
         [mkBook ''h1'' ''CS'' ''CE'' 1 0,
          mkBook ''b1'' ''CS'' ''CE'' 2 (990 * msPerDay),
          mkBook ''b2'' ''Art'' ''ME'' 5 0],
       snapshot = Inr [mkLibraryBook ''book-1'' ''cs intro'' ''CE'' 7,
                       mkLibraryBook ''book-2'' ''art'' ''ME'' 1],
       hostCollation = demoCollation,
       popularNow = 1000 * msPerDay,
       enrichNow = 1000 * msPerDay \<rparr>"

definition demoInput :: RecommendationInput where
  "demoInput = \<lparr> userId = ''u'', limit = None, excludeBookIds = None \<rparr>"

text \<open>The same library with an empty book table, so that only the bridge can answer.\<close>

definition bridgeWorld :: World where
  "bridgeWorld = demoWorld \<lparr> books := [] \<rparr>"


text \<open>A caller that passes back, as an exclusion, an id the bridge has returned.\<close>

definition echoInput :: RecommendationInput where
  "echoInput = demoInput \<lparr> excludeBookIds := Some [''dataset-book-1''] \<rparr>"


section \<open>Properties of the primitives\<close>

lemma set_set_add: "set (set_add x s) = insert x (set s)"
  by (auto simp: set_add_def)

lemma distinct_set_add: "distinct s \<Longrightarrow> distinct (set_add x s)"
  by (simp add: set_add_def)

lemma set_add_nonempty: "set_add x s \<noteq> []"
  by (auto simp: set_add_def)

lemma set_foldl_set_add: "set (foldl (\<lambda>s x. set_add x s) acc xs) = set acc \<union> set xs"
  by (induction xs arbitrary: acc) (auto simp: set_set_add)

lemma distinct_foldl_set_add:
  "distinct acc \<Longrightarrow> distinct (foldl (\<lambda>s x. set_add x s) acc xs)"
  by (induction xs arbitrary: acc) (auto simp: distinct_set_add)

lemma set_new_Set: "set (new_Set xs) = set xs"
  by (simp add: new_Set_def set_foldl_set_add)

lemma distinct_new_Set: "distinct (new_Set xs)"
  by (simp add: new_Set_def distinct_foldl_set_add)

lemma length_new_Set: "length (new_Set xs) \<le> length xs"
  by (metis distinct_new_Set set_new_Set distinct_card card_length)


lemma map_of_map_set: "map_of (map_set k v m) = (map_of m)(k \<mapsto> v)"
  by (induction m) (auto simp: fun_eq_iff)

lemma keys_map_set:
  "map fst (map_set k v m) = (if k \<in> fst ` set m then map fst m else map fst m @ [k])"
  by (induction m) (force simp: image_iff)+


lemma distinct_keys_map_set: "distinct (map fst m) \<Longrightarrow> distinct (map fst (map_set k v m))"
  by (simp add: keys_map_set)

lemma map_set_absent: "k \<notin> fst ` set m \<Longrightarrow> map_set k v m = m @ [(k, v)]"
  by (induction m) auto

lemma in_map_set: "e \<in> set (map_set k v m) \<Longrightarrow> e = (k, v) \<or> e \<in> set m"
  by (induction m) (auto split: if_splits)

lemma map_has_iff: "map_has m k \<longleftrightarrow> k \<in> fst ` set m"
  by (simp add: map_has_def map_of_eq_None_iff)


lemma mset_insertBy: "mset (insertBy cmp x ys) = add_mset x (mset ys)"
  by (induction ys) auto

lemma mset_js_sort: "mset (js_sort cmp xs) = mset xs"
  by (induction xs) (auto simp: js_sort_def mset_insertBy)

lemma set_js_sort: "set (js_sort cmp xs) = set xs"
  by (metis mset_js_sort set_mset_mset)

lemma length_js_sort: "length (js_sort cmp xs) = length xs"
  by (metis mset_js_sort size_mset)

lemma set_insertBy: "set (insertBy cmp x ys) = insert x (set ys)"
  by (metis mset_insertBy set_mset_mset set_mset_add_mset_insert)

lemma sorted_insertBy:
  assumes tot: "\<And>a b. cmp a b \<le> 0 \<or> cmp b a \<le> 0"
    and tr: "\<And>a b c. cmp a b \<le> 0 \<Longrightarrow> cmp b c \<le> 0 \<Longrightarrow> cmp a c \<le> 0"
  shows "sorted_wrt (\<lambda>a b. cmp a b \<le> 0) ys \<Longrightarrow> sorted_wrt (\<lambda>a b. cmp a b \<le> 0) (insertBy cmp x ys)"
proof (induction ys)
  case Nil
  then show ?case by simp
next
  case (Cons y ys)
  show ?case
  proof (cases "cmp x y \<le> 0")
    case True
    with Cons.prems tr show ?thesis by auto
  next
    case False
    with tot have "cmp y x \<le> 0" by blast
    with False Cons show ?thesis by (auto simp: set_insertBy)
  qed
qed

lemma sorted_js_sort:
  assumes tot: "\<And>a b. cmp a b \<le> 0 \<or> cmp b a \<le> 0"
    and tr: "\<And>a b c. cmp a b \<le> 0 \<Longrightarrow> cmp b c \<le> 0 \<Longrightarrow> cmp a c \<le> 0"
  shows "sorted_wrt (\<lambda>a b. cmp a b \<le> 0) (js_sort cmp xs)"
proof (induction xs)
  case Nil
  then show ?case by (simp add: js_sort_def)
next
  case (Cons x xs)
  have "js_sort cmp (x # xs) = insertBy cmp x (js_sort cmp xs)"
    by (simp add: js_sort_def)
  with Cons sorted_insertBy[of cmp, OF tot tr] show ?case by simp
qed

lemma filter_insertBy_in:
  "P x \<Longrightarrow> (\<And>y. y \<in> set ys \<Longrightarrow> P y \<Longrightarrow> cmp x y \<le> 0)
   \<Longrightarrow> filter P (insertBy cmp x ys) = x # filter P ys"
  by (induction ys) auto

lemma filter_insertBy_out: "\<not> P x \<Longrightarrow> filter P (insertBy cmp x ys) = filter P ys"
  by (induction ys) auto

lemma stable_js_sort:
  assumes "\<And>x y. P x \<Longrightarrow> P y \<Longrightarrow> cmp x y \<le> 0"
  shows "filter P (js_sort cmp xs) = filter P xs"
proof (induction xs)
  case Nil
  then show ?case by (simp add: js_sort_def)
next
  case (Cons x xs)
  have eq: "js_sort cmp (x # xs) = insertBy cmp x (js_sort cmp xs)"
    by (simp add: js_sort_def)
  show ?case
  proof (cases "P x")
    case True
    then have "filter P (insertBy cmp x (js_sort cmp xs)) = x # filter P (js_sort cmp xs)"
      using assms by (intro filter_insertBy_in) auto
    with True Cons eq show ?thesis by simp
  next
    case False
    with Cons eq show ?thesis by (simp add: filter_insertBy_out)
  qed
qed


lemma js_slice0_take: "\<exists>k. js_slice0 xs n = take k xs"
  by (auto simp: js_slice0_def)

lemma js_slice0_nonneg: "0 \<le> n \<Longrightarrow> js_slice0 xs n = take (nat n) xs"
  by (simp add: js_slice0_def)

lemma length_js_slice0: "0 \<le> n \<Longrightarrow> int (length (js_slice0 xs n)) \<le> n"
  by (simp add: js_slice0_def)

lemma set_js_slice0: "set (js_slice0 xs n) \<subseteq> set xs"
  by (metis js_slice0_take set_take_subset)

lemma sorted_wrt_js_slice0: "sorted_wrt R xs \<Longrightarrow> sorted_wrt R (js_slice0 xs n)"
  by (metis js_slice0_take sorted_wrt_take)

lemma set_prisma_take: "set (prisma_take n xs) \<subseteq> set xs"
  by (auto simp: prisma_take_def dest: in_set_takeD in_set_dropD)

lemma length_prisma_take: "0 \<le> n \<Longrightarrow> int (length (prisma_take n xs)) \<le> n"
  by (simp add: prisma_take_def)

lemma prisma_take_all: "int (length xs) \<le> n \<Longrightarrow> prisma_take n xs = xs"
  by (simp add: prisma_take_def)


lemma set_orderByDesc: "set (orderByDesc key xs) = set xs"
  by (simp add: orderByDesc_def set_js_sort)

lemma length_orderByDesc: "length (orderByDesc key xs) = length xs"
  by (simp add: orderByDesc_def length_js_sort)




lemma foldl_map_set_entries:
  "e \<in> set (foldl (\<lambda>m c. map_set (f c) c m) m0 xs)
   \<Longrightarrow> e \<in> set m0 \<or> (\<exists>c \<in> set xs. e = (f c, c))"
proof (induction xs arbitrary: m0)
  case Nil
  then show ?case by simp
next
  case (Cons x xs)
  from Cons.IH[of "map_set (f x) x m0"] Cons.prems
  have "e \<in> set (map_set (f x) x m0) \<or> (\<exists>c \<in> set xs. e = (f c, c))" by simp
  then show ?case using in_map_set[of e "f x" x m0] by auto
qed



lemma setIfAbsent_cases:
  "setIfAbsent m c = (if b_id c \<in> fst ` set m then m else m @ [(b_id c, c)])"
  by (simp add: setIfAbsent_def map_has_iff map_set_absent)


lemma foldl_setIfAbsent_entries:
  "e \<in> set (foldl setIfAbsent m xs) \<Longrightarrow> e \<in> set m \<or> (\<exists>c \<in> set xs. e = (b_id c, c))"
proof (induction xs arbitrary: m)
  case Nil
  then show ?case by simp
next
  case (Cons x xs)
  from Cons.IH[of "setIfAbsent m x"] Cons.prems
  have "e \<in> set (setIfAbsent m x) \<or> (\<exists>c \<in> set xs. e = (b_id c, c))" by simp
  moreover have "e \<in> set (setIfAbsent m x) \<Longrightarrow> e \<in> set m \<or> e = (b_id x, x)"
    by (cases "b_id x \<in> fst ` set m") (auto simp: setIfAbsent_cases)
  ultimately show ?case by auto
qed


lemma foldl_setIfAbsent_distinct:
  "distinct (map fst m) \<Longrightarrow> distinct (map fst (foldl setIfAbsent m xs))"
proof (induction xs arbitrary: m)
  case Nil
  then show ?case by simp
next
  case (Cons x xs)
  from Cons.prems have "distinct (map fst (setIfAbsent m x))"
    by (cases "b_id x \<in> fst ` set m") (auto simp: setIfAbsent_cases)
  with Cons.IH show ?case by simp
qed



lemma enrichCandidate_id: "r_id (enrichCandidate n cx p d c) = b_id c"
  by (simp add: enrichCandidate_def Let_def)

lemma enrichCandidate_copies: "r_availableCopies (enrichCandidate n cx p d c) = b_availableCopies c"
  by (simp add: enrichCandidate_def Let_def)

lemma signal_fst_nonneg: "0 \<le> delta \<Longrightarrow> 0 \<le> fst sr \<Longrightarrow> 0 \<le> fst (signal f delta reason sr)"
  by (simp add: signal_def)

lemma signal_distinct: "distinct (snd sr) \<Longrightarrow> distinct (snd (signal f delta reason sr))"
  by (simp add: signal_def distinct_set_add)

lemma signal_reasons:
  "0 < delta \<Longrightarrow> 0 \<le> fst sr \<Longrightarrow> (fst sr = 0 \<longleftrightarrow> snd sr = [])
   \<Longrightarrow> (fst (signal f delta reason sr) = 0 \<longleftrightarrow> snd (signal f delta reason sr) = [])"
  by (auto simp: signal_def set_add_nonempty)

section \<open>Properties of the recommendation engine\<close>

lemma length_scoredItems:
  "0 \<le> resolveLimit input \<Longrightarrow> int (length (scoredItems_of w input user)) \<le> resolveLimit input"
  by (simp add: scoredItems_of_def length_js_slice0)

lemma length_buildDatasetFallback:
  "0 \<le> lmt \<Longrightarrow> int (length (buildDatasetFallback coll loaded ei d lmt ex)) \<le> lmt"
  by (auto simp: buildDatasetFallback_def datasetTry_def datasetSorted_def length_js_slice0
      split: sum.splits)

text \<open>
  Claim C1. With \<open>lmt\<close> the supplied limit, or 6 when none is supplied, the returned
  \<open>items\<close> list has at most \<open>lmt\<close> entries, and so have the list of the scored path and
  the list of the dataset bridge. The interface admits limits from 1; the bound is shown
  for every limit from 0.
\<close>

theorem C1_items_at_most_limit:
  assumes "lmt = (case limit input of None \<Rightarrow> 6 | Some n \<Rightarrow> n)" and "0 \<le> lmt"
  shows "int (length (items (fst (getPersonalizedRecommendations w input)))) \<le> lmt
         \<and> int (length (scoredItems_of w input user)) \<le> lmt
         \<and> int (length (datasetFallback_of w input user)) \<le> lmt"
proof -
  have lmt: "resolveLimit input = lmt"
    using assms(1) by (simp add: resolveLimit_def)
  have s: "int (length (scoredItems_of w input u)) \<le> lmt" for u
    using length_scoredItems[of input w u] assms(2) lmt by simp
  have d: "int (length (datasetFallback_of w input u)) \<le> lmt" for u
    using length_buildDatasetFallback[OF assms(2)] lmt by (simp add: datasetFallback_of_def)
  have "int (length (items (fst (getPersonalizedRecommendations w input)))) \<le> lmt"
  proof (cases "findUser w (userId input)")
    case None
    then show ?thesis using assms(2) by (simp add: getPersonalizedRecommendations_def)
  next
    case (Some u)
    then show ?thesis using s[of u] d[of u]
      by (simp add: getPersonalizedRecommendations_def Let_def)
  qed
  with s d show ?thesis by blast
qed

theorem C1_items_at_most_limit_witness:
  "items (fst (getPersonalizedRecommendations demoWorld demoInput)) \<noteq> []
   \<and> int (length (items (fst (getPersonalizedRecommendations demoWorld demoInput)))) \<le> 6"
proof -
  have h1: "(6::int) = (case limit demoInput of None \<Rightarrow> 6 | Some n \<Rightarrow> n)"
    by (simp add: demoInput_def)
  have h2: "(0::int) \<le> 6" by simp
  have ne: "items (fst (getPersonalizedRecommendations demoWorld demoInput)) \<noteq> []"
    by code_simp
  from C1_items_at_most_limit[OF h1 h2, of demoWorld demoUser] ne show ?thesis by blast
qed

subsection \<open>Unknown user\<close>

text \<open>
  Claim C6. When no row of the user table has the requested id, the call returns the
  empty list with the empty context whose \<open>fallbackUsed\<close> is true, and the only read
  issued is the one for the user: no retrieval tier and no snapshot load.
\<close>

theorem C6_unknown_user:
  assumes "userId input \<notin> u_id ` set (users w)"
  shows "getPersonalizedRecommendations w input =
           (\<lparr> items = [],
              ctx = \<lparr> c_explicitInterests = [], c_derivedCategories = [],
                      c_department = None, c_fallbackUsed = True \<rparr> \<rparr>,
            [FindUser])"
proof -
  have "findUser w (userId input) = None"
    using assms by (auto simp: findUser_def find_None_iff image_iff)
  then show ?thesis by (simp add: getPersonalizedRecommendations_def)
qed

theorem C6_unknown_user_witness:
  "getPersonalizedRecommendations demoWorld (demoInput \<lparr> userId := ''nobody'' \<rparr>) =
     (\<lparr> items = [],
        ctx = \<lparr> c_explicitInterests = [], c_derivedCategories = [],
                c_department = None, c_fallbackUsed = True \<rparr> \<rparr>,
      [FindUser])"
proof -
  have h: "userId (demoInput \<lparr> userId := ''nobody'' \<rparr>) \<notin> u_id ` set (users demoWorld)"
    by (simp add: demoWorld_def demoUser_def)
  from C6_unknown_user[OF h] show ?thesis .
qed

subsection \<open>The dataset bridge\<close>

lemma matchToken_inv:
  assumes "1 \<le> fst st" and "distinct (fst (snd st))"
  shows "1 \<le> fst (matchToken ei s st ti) \<and> distinct (fst (snd (matchToken ei s st ti)))"
  using assms by (cases st; cases ti) (simp add: matchToken_def Let_def distinct_set_add)

lemma foldl_matchToken_inv:
  "1 \<le> fst st \<Longrightarrow> distinct (fst (snd st))
   \<Longrightarrow> 1 \<le> fst (foldl (matchToken ei s) st ps)
       \<and> distinct (fst (snd (foldl (matchToken ei s) st ps)))"
proof (induction ps arbitrary: st)
  case Nil
  then show ?case by simp
next
  case (Cons p ps)
  from matchToken_inv[OF Cons.prems, of ei s p] Cons.IH show ?case by simp
qed

lemma foldl_matchToken_none:
  "(\<And>p. p \<in> set ps \<Longrightarrow> \<not> str_includes s (fst p)) \<Longrightarrow> foldl (matchToken ei s) st ps = st"
proof (induction ps arbitrary: st)
  case Nil
  then show ?case by simp
next
  case (Cons p ps)
  have "matchToken ei s st p = st"
    using Cons.prems[of p] by (cases st; cases p) (simp add: matchToken_def)
  with Cons show ?case by simp
qed

lemma scoreBook_book: "sb_book (scoreBook ei toks d book) = book"
  by (simp add: scoreBook_def Let_def)

lemma scoreBook_inv:
  "1 \<le> sb_score (scoreBook ei toks d book) \<and> distinct (sb_reasons (scoreBook ei toks d book))"
proof -
  let ?s = "toLowerCase (lb_title book @ '' '' @ lb_author book)"
  let ?st1 = "foldl (matchToken ei ?s) (1, [], None) (zip toks [0 ..< length toks])"
  have "1 \<le> fst ?st1 \<and> distinct (fst (snd ?st1))"
    by (rule foldl_matchToken_inv) simp_all
  then show ?thesis
    by (simp add: scoreBook_def Let_def distinct_set_add)
qed

lemma toRecommendation_inv:
  assumes "1 \<le> sb_score sb" and "distinct (sb_reasons sb)"
  shows "1 \<le> r_score (toRecommendation sb) \<and> r_reasons (toRecommendation sb) \<noteq> []
         \<and> distinct (r_reasons (toRecommendation sb))"
  using assms by (auto simp: toRecommendation_def Let_def)

lemma datasetSorted_subset:
  "set (datasetSorted coll bs ei d lmt ex) \<subseteq> set (datasetScored bs ei d ex)"
  using set_js_slice0[of "js_sort (compareDataset coll) (datasetScored bs ei d ex)" lmt]
  by (simp add: datasetSorted_def set_js_sort)

lemma buildDatasetFallback_Inr:
  "buildDatasetFallback coll (Inr bs) ei d lmt ex = map toRecommendation (datasetSorted coll bs ei d lmt ex)"
  by (cases bs)
    (simp_all add: buildDatasetFallback_def datasetTry_def datasetSorted_def datasetScored_def
      js_sort_def js_slice0_def)

lemma buildDatasetFallback_Inl: "buildDatasetFallback coll (Inl e) ei d lmt ex = []"
  by (simp add: buildDatasetFallback_def datasetTry_def)

lemma buildDatasetFallback_elem:
  assumes "r \<in> set (buildDatasetFallback coll loaded ei d lmt ex)"
  shows "\<exists>bs book. loaded = Inr bs \<and> book \<in> set bs \<and> lb_id book \<notin> set ex
           \<and> r = toRecommendation (scoreBook ei (interestTokens_of ei) d book)"
proof (cases loaded)
  case (Inl e)
  with assms show ?thesis by (simp add: buildDatasetFallback_Inl)
next
  case (Inr bs)
  with assms obtain sb where sb: "sb \<in> set (datasetSorted coll bs ei d lmt ex)" "r = toRecommendation sb"
    by (auto simp: buildDatasetFallback_Inr)
  with datasetSorted_subset have "sb \<in> set (datasetScored bs ei d ex)" by blast
  then obtain book where "book \<in> set bs" "lb_id book \<notin> set ex"
      "sb = scoreBook ei (interestTokens_of ei) d book"
    by (auto simp: datasetScored_def)
  with sb Inr show ?thesis by blast
qed

text \<open>
  Claim C10. Every recommendation the bridge returns comes from a row of the snapshot
  that was loaded: it is never a new arrival, it is popular exactly when the row has at
  least 5 copies, it reports \<open>max copies 1\<close> available copies and its id is the row's id
  behind the prefix \<open>dataset-\<close>.
\<close>

theorem C10_bridge_fields:
  "\<forall>r \<in> set (buildDatasetFallback coll loaded explicitInterests department lmt excludeIds).
     \<exists>allBooks book. loaded = Inr allBooks \<and> book \<in> set allBooks
       \<and> r_isNewArrival r = False
       \<and> r_isPopular r = (5 \<le> lb_copies book)
       \<and> r_availableCopies r = max (lb_copies book) 1
       \<and> r_id r = ''dataset-'' @ lb_id book"
proof
  fix r
  assume "r \<in> set (buildDatasetFallback coll loaded explicitInterests department lmt excludeIds)"
  from buildDatasetFallback_elem[OF this]
  obtain bs book where b: "loaded = Inr bs" "book \<in> set bs"
    "r = toRecommendation (scoreBook explicitInterests (interestTokens_of explicitInterests) department book)"
    by blast
  have "r_isNewArrival r = False \<and> r_isPopular r = (5 \<le> lb_copies book)
        \<and> r_availableCopies r = max (lb_copies book) 1 \<and> r_id r = ''dataset-'' @ lb_id book"
    using b(3) by (simp add: toRecommendation_def Let_def scoreBook_book)
  with b show "\<exists>allBooks book. loaded = Inr allBooks \<and> book \<in> set allBooks
       \<and> r_isNewArrival r = False
       \<and> r_isPopular r = (5 \<le> lb_copies book)
       \<and> r_availableCopies r = max (lb_copies book) 1
       \<and> r_id r = ''dataset-'' @ lb_id book" by blast
qed

theorem C10_bridge_fields_witness:
  "map (\<lambda>r. (r_id r, r_isNewArrival r, r_isPopular r, r_availableCopies r))
     (buildDatasetFallback demoCollation (snapshot demoWorld) [''CS''] (Some ''CE'') 6 [])
   = [(''dataset-book-1'', False, True, 7), (''dataset-book-2'', False, False, 1)]
   \<and> list_all (\<lambda>r. \<exists>allBooks book. snapshot demoWorld = Inr allBooks \<and> book \<in> set allBooks
          \<and> r_isNewArrival r = False
          \<and> r_isPopular r = (5 \<le> lb_copies book)
          \<and> r_availableCopies r = max (lb_copies book) 1
          \<and> r_id r = ''dataset-'' @ lb_id book)
       (buildDatasetFallback demoCollation (snapshot demoWorld) [''CS''] (Some ''CE'') 6 [])"
proof -
  have "map (\<lambda>r. (r_id r, r_isNewArrival r, r_isPopular r, r_availableCopies r))
     (buildDatasetFallback demoCollation (snapshot demoWorld) [''CS''] (Some ''CE'') 6 [])
   = [(''dataset-book-1'', False, True, 7), (''dataset-book-2'', False, False, 1)]"
    by code_simp
  with C10_bridge_fields[of demoCollation "snapshot demoWorld" "[''CS'']" "Some ''CE''" 6 "[]"]
  show ?thesis unfolding list_all_iff by blast
qed



subsection \<open>Scores and reasons\<close>

lemma fst_signal: "fst (signal f delta reason sr) = fst sr + (if f then delta else 0)"
  by (simp add: signal_def)

lemma snd_signal: "snd (signal f delta reason sr) = (if f then set_add reason (snd sr) else snd sr)"
  by (simp add: signal_def)

lemma set_add_fresh: "x \<notin> set s \<Longrightarrow> set_add x s = s @ [x]"
  by (simp add: set_add_def)

lemma enrichCandidate_score:
  "r_score (enrichCandidate n cx p d c) =
     (let s = (if b_category c \<in> set (c_explicitInterests cx) then 3 else 0)
            + (if b_category c \<in> set d then 2 else 0)
            + (if truthy (c_department cx) \<and> Some (b_department c) = c_department cx then 2 else 0)
            + (if isNewArrival_of n c then 1 else 0)
            + (if b_id c \<in> set p then 1 else 0)
      in if s = 0 then 1 else s)"
  by (simp add: enrichCandidate_def Let_def fst_signal)

lemma enrichCandidate_reasons:
  "r_reasons (enrichCandidate n cx p d c) =
     (let rs = (if b_category c \<in> set (c_explicitInterests cx)
                then [''Matches your interest in '' @ b_category c] else [])
             @ (if b_category c \<in> set d
                then [''You often borrow '' @ b_category c @ '' titles''] else [])
             @ (if truthy (c_department cx) \<and> Some (b_department c) = c_department cx
                then [''From your department collection''] else [])
             @ (if isNewArrival_of n c then [''New arrival this term''] else [])
             @ (if b_id c \<in> set p then [''Popular with other students''] else [])
      in if rs = [] then [''Handpicked by the library team''] else rs)"
proof -
  define f1 where "f1 \<longleftrightarrow> b_category c \<in> set (c_explicitInterests cx)"
  define f2 where "f2 \<longleftrightarrow> b_category c \<in> set d"
  define f3 where "f3 \<longleftrightarrow> truthy (c_department cx) \<and> Some (b_department c) = c_department cx"
  define f4 where "f4 \<longleftrightarrow> isNewArrival_of n c"
  define f5 where "f5 \<longleftrightarrow> b_id c \<in> set p"
  define R1 where "R1 = ''Matches your interest in '' @ b_category c"
  define R2 where "R2 = ''You often borrow '' @ b_category c @ '' titles''"
  define sr1 where "sr1 = signal f1 3 R1 (0, [])"
  define sr2 where "sr2 = signal f2 2 R2 sr1"
  define sr3 where "sr3 = signal f3 2 ''From your department collection'' sr2"
  define sr4 where "sr4 = signal f4 1 ''New arrival this term'' sr3"
  define sr5 where "sr5 = signal f5 1 ''Popular with other students'' sr4"
  have r: "r_reasons (enrichCandidate n cx p d c) =
      (if fst sr5 = 0 then set_add ''Handpicked by the library team'' (snd sr5) else snd sr5)"
    unfolding enrichCandidate_def Let_def sr5_def sr4_def sr3_def sr2_def sr1_def
      f1_def f2_def f3_def f4_def f5_def R1_def R2_def
    by (simp add: if_distrib[of snd])
  have s1: "snd sr1 = (if f1 then [R1] else [])"
    by (simp add: sr1_def snd_signal set_add_def)
  have m1: "set (snd sr1) \<subseteq> {R1}" by (auto simp: s1)
  have s2: "snd sr2 = snd sr1 @ (if f2 then [R2] else [])"
  proof -
    have "R2 \<notin> set (snd sr1)" using m1 by (auto simp: R1_def R2_def)
    then show ?thesis by (simp add: sr2_def snd_signal set_add_fresh)
  qed
  have m2: "set (snd sr2) \<subseteq> {R1, R2}" using m1 by (auto simp: s2)
  have s3: "snd sr3 = snd sr2 @ (if f3 then [''From your department collection''] else [])"
  proof -
    have "''From your department collection'' \<notin> set (snd sr2)"
      using m2 by (auto simp: R1_def R2_def)
    then show ?thesis by (simp add: sr3_def snd_signal set_add_fresh)
  qed
  have m3: "set (snd sr3) \<subseteq> {R1, R2, ''From your department collection''}"
    using m2 by (auto simp: s3)
  have s4: "snd sr4 = snd sr3 @ (if f4 then [''New arrival this term''] else [])"
  proof -
    have "''New arrival this term'' \<notin> set (snd sr3)"
      using m3 by (auto simp: R1_def R2_def)
    then show ?thesis by (simp add: sr4_def snd_signal set_add_fresh)
  qed
  have m4: "set (snd sr4) \<subseteq> {R1, R2, ''From your department collection'', ''New arrival this term''}"
    using m3 by (auto simp: s4)
  have s5: "snd sr5 = snd sr4 @ (if f5 then [''Popular with other students''] else [])"
  proof -
    have "''Popular with other students'' \<notin> set (snd sr4)"
      using m4 by (auto simp: R1_def R2_def)
    then show ?thesis by (simp add: sr5_def snd_signal set_add_fresh)
  qed
  have all: "snd sr5 = (if f1 then [R1] else []) @ (if f2 then [R2] else [])
       @ (if f3 then [''From your department collection''] else [])
       @ (if f4 then [''New arrival this term''] else [])
       @ (if f5 then [''Popular with other students''] else [])"
    by (simp only: s5 s4 s3 s2 s1 append_assoc)
  have z: "fst sr5 = 0 \<longleftrightarrow> \<not> f1 \<and> \<not> f2 \<and> \<not> f3 \<and> \<not> f4 \<and> \<not> f5"
    by (simp add: sr5_def sr4_def sr3_def sr2_def sr1_def fst_signal)
  have e: "snd sr5 = [] \<longleftrightarrow> \<not> f1 \<and> \<not> f2 \<and> \<not> f3 \<and> \<not> f4 \<and> \<not> f5"
    unfolding all by simp
  have "r_reasons (enrichCandidate n cx p d c) =
      (if snd sr5 = [] then [''Handpicked by the library team''] else snd sr5)"
  proof (cases "fst sr5 = 0")
    case True
    with z e have "snd sr5 = []" by blast
    with True show ?thesis unfolding r by (simp add: set_add_def)
  next
    case False
    with z e have "snd sr5 \<noteq> []" by blast
    with False show ?thesis unfolding r by simp
  qed
  then show ?thesis
    unfolding all Let_def f1_def f2_def f3_def f4_def f5_def R1_def R2_def .
qed

lemma enrichCandidate_inv:
  "1 \<le> r_score (enrichCandidate n cx p d c) \<and> r_reasons (enrichCandidate n cx p d c) \<noteq> []
   \<and> distinct (r_reasons (enrichCandidate n cx p d c))"
proof -
  have "distinct (r_reasons (enrichCandidate n cx p d c))"
    by (simp add: enrichCandidate_def Let_def signal_distinct distinct_set_add)
  moreover have "r_reasons (enrichCandidate n cx p d c) \<noteq> []"
    unfolding enrichCandidate_reasons Let_def by (simp split: if_splits)
  moreover have "1 \<le> r_score (enrichCandidate n cx p d c)"
    unfolding enrichCandidate_score Let_def by simp
  ultimately show ?thesis by blast
qed

lemma scoredItems_elem:
  assumes "r \<in> set (scoredItems_of w input user)"
  shows "\<exists>k c. (k, c) \<in> set (candidateMap_of w input user)
           \<and> r = enrichCandidate (enrichNow w)
                   \<lparr> c_explicitInterests = explicitInterests_of user,
                     c_derivedCategories = derivedCategories_of w user,
                     c_department = userDepartment_of user,
                     c_fallbackUsed = fallbackRuns w input user \<rparr>
                   (popularIdSet_of w) (new_Set (derivedCategories_of w user)) c"
proof -
  have "set (scoredItems_of w input user)
        \<subseteq> set (js_sort compareScored (enriched_of w input user))"
    unfolding scoredItems_of_def by (rule set_js_slice0)
  with assms have "r \<in> set (enriched_of w input user)"
    by (auto simp: set_js_sort)
  then obtain e where e: "e \<in> set (candidateMap_of w input user)"
    and r: "r = enrichCandidate (enrichNow w)
                   \<lparr> c_explicitInterests = explicitInterests_of user,
                     c_derivedCategories = derivedCategories_of w user,
                     c_department = userDepartment_of user,
                     c_fallbackUsed = fallbackRuns w input user \<rparr>
                   (popularIdSet_of w) (new_Set (derivedCategories_of w user)) (snd e)"
    unfolding enriched_of_def enrichCandidates_def by auto
  from e have "(fst e, snd e) \<in> set (candidateMap_of w input user)" by simp
  with r show ?thesis by blast
qed

lemma items_cases:
  assumes "findUser w (userId input) = Some user"
  shows "items (fst (getPersonalizedRecommendations w input)) = scoredItems_of w input user
         \<or> (scoredItems_of w input user = []
            \<and> items (fst (getPersonalizedRecommendations w input)) = datasetFallback_of w input user)"
  using assms by (simp add: getPersonalizedRecommendations_def Let_def)

lemma items_unknown:
  "findUser w (userId input) = None \<Longrightarrow> items (fst (getPersonalizedRecommendations w input)) = []"
  by (simp add: getPersonalizedRecommendations_def)

text \<open>
  Claim C3. Every recommendation returned, by the scored path or by the bridge, has a
  score of at least 1 and a list of reasons that is not empty and has no duplicates. A
  candidate of the scored path on which no signal fires gets score 1 and the one reason
  \<open>Handpicked by the library team\<close>; a snapshot row on which no signal fires gets score 1
  and the one reason \<open>Featured from the library catalog\<close>.
\<close>

theorem C3_score_and_reasons:
  "(\<forall>r \<in> set (items (fst (getPersonalizedRecommendations w input))).
      1 \<le> r_score r \<and> r_reasons r \<noteq> [] \<and> distinct (r_reasons r))
   \<and> (b_category c \<notin> set (c_explicitInterests cx) \<and> b_category c \<notin> set derived
        \<and> \<not> (truthy (c_department cx) \<and> Some (b_department c) = c_department cx)
        \<and> \<not> isNewArrival_of nowDate c \<and> b_id c \<notin> set popular
      \<longrightarrow> r_score (enrichCandidate nowDate cx popular derived c) = 1
          \<and> r_reasons (enrichCandidate nowDate cx popular derived c)
              = [''Handpicked by the library team''])
   \<and> ((\<forall>token \<in> set tokens.
          \<not> str_includes (toLowerCase (lb_title book @ '' '' @ lb_author book)) token)
        \<and> \<not> departmentMatches department book \<and> lb_copies book < 5
      \<longrightarrow> r_score (toRecommendation (scoreBook interests tokens department book)) = 1
          \<and> r_reasons (toRecommendation (scoreBook interests tokens department book))
              = [''Featured from the library catalog''])"
proof -
  have a: "1 \<le> r_score r \<and> r_reasons r \<noteq> [] \<and> distinct (r_reasons r)"
    if r: "r \<in> set (items (fst (getPersonalizedRecommendations w input)))" for r
  proof (cases "findUser w (userId input)")
    case None
    with r show ?thesis by (simp add: items_unknown)
  next
    case (Some user)
    from items_cases[OF Some] r
    consider "r \<in> set (scoredItems_of w input user)" | "r \<in> set (datasetFallback_of w input user)"
      by auto
    then show ?thesis
    proof cases
      case 1
      from scoredItems_elem[OF 1] show ?thesis
        using enrichCandidate_inv by blast
    next
      case 2
      then obtain bk where "r = toRecommendation
          (scoreBook (explicitInterests_of user) (interestTokens_of (explicitInterests_of user))
             (userDepartment_of user) bk)"
        unfolding datasetFallback_of_def using buildDatasetFallback_elem by blast
      then show ?thesis
        using toRecommendation_inv scoreBook_inv by blast
    qed
  qed
  have b: "r_score (enrichCandidate nowDate cx popular derived c) = 1
          \<and> r_reasons (enrichCandidate nowDate cx popular derived c)
              = [''Handpicked by the library team'']"
    if "b_category c \<notin> set (c_explicitInterests cx) \<and> b_category c \<notin> set derived
        \<and> \<not> (truthy (c_department cx) \<and> Some (b_department c) = c_department cx)
        \<and> \<not> isNewArrival_of nowDate c \<and> b_id c \<notin> set popular"
    using that by (simp add: enrichCandidate_score enrichCandidate_reasons)
  have c: "r_score (toRecommendation (scoreBook interests tokens department book)) = 1
          \<and> r_reasons (toRecommendation (scoreBook interests tokens department book))
              = [''Featured from the library catalog'']"
    if h: "(\<forall>token \<in> set tokens.
          \<not> str_includes (toLowerCase (lb_title book @ '' '' @ lb_author book)) token)
        \<and> \<not> departmentMatches department book \<and> lb_copies book < 5"
  proof -
    let ?s = "toLowerCase (lb_title book @ '' '' @ lb_author book)"
    have "foldl (matchToken interests ?s) (1, [], None) (zip tokens [0 ..< length tokens])
          = (1, [], None)"
    proof (rule foldl_matchToken_none)
      fix p assume "p \<in> set (zip tokens [0 ..< length tokens])"
      then have "fst p \<in> set tokens" by (metis prod.collapse set_zip_leftD)
      with h show "\<not> str_includes ?s (fst p)" by blast
    qed
    with h show ?thesis
      by (simp add: scoreBook_def toRecommendation_def Let_def)
  qed
  from a b c show ?thesis by fast
qed

theorem C3_score_and_reasons_witness:
  "map (\<lambda>r. (r_score r, length (r_reasons r)))
       (items (fst (getPersonalizedRecommendations demoWorld demoInput))) = [(9, 5), (1, 1)]
   \<and> list_all (\<lambda>r. 1 \<le> r_score r \<and> r_reasons r \<noteq> [] \<and> distinct (r_reasons r))
       (items (fst (getPersonalizedRecommendations demoWorld demoInput)))
   \<and> r_reasons (enrichCandidate 0 \<lparr> c_explicitInterests = [], c_derivedCategories = [],
         c_department = None, c_fallbackUsed = False \<rparr> [] []
         (mkBook ''b2'' ''Art'' ''ME'' 5 (- 100 * msPerDay))) = [''Handpicked by the library team'']
   \<and> r_reasons (toRecommendation (scoreBook [''CS''] [''cs''] None
         (mkLibraryBook ''book-2'' ''art'' ''ME'' 1))) = [''Featured from the library catalog'']"
proof -
  note t = C3_score_and_reasons[of demoWorld demoInput
      "mkBook ''b2'' ''Art'' ''ME'' 5 (- 100 * msPerDay)"
      "\<lparr> c_explicitInterests = [], c_derivedCategories = [], c_department = None,
         c_fallbackUsed = False \<rparr>" "[]" 0 "[]" "[''cs'']"
      "mkLibraryBook ''book-2'' ''art'' ''ME'' 1" None "[''CS'']"]
  have e: "map (\<lambda>r. (r_score r, length (r_reasons r)))
       (items (fst (getPersonalizedRecommendations demoWorld demoInput))) = [(9, 5), (1, 1)]"
    by code_simp
  have h1: "b_category (mkBook ''b2'' ''Art'' ''ME'' 5 (- 100 * msPerDay))
        \<notin> set (c_explicitInterests \<lparr> c_explicitInterests = [], c_derivedCategories = [],
             c_department = None, c_fallbackUsed = False \<rparr>)
      \<and> b_category (mkBook ''b2'' ''Art'' ''ME'' 5 (- 100 * msPerDay)) \<notin> set []
      \<and> \<not> (truthy (c_department \<lparr> c_explicitInterests = [], c_derivedCategories = [],
             c_department = None, c_fallbackUsed = False \<rparr>)
           \<and> Some (b_department (mkBook ''b2'' ''Art'' ''ME'' 5 (- 100 * msPerDay)))
             = c_department \<lparr> c_explicitInterests = [], c_derivedCategories = [],
                 c_department = None, c_fallbackUsed = False \<rparr>)
      \<and> \<not> isNewArrival_of 0 (mkBook ''b2'' ''Art'' ''ME'' 5 (- 100 * msPerDay))
      \<and> b_id (mkBook ''b2'' ''Art'' ''ME'' 5 (- 100 * msPerDay)) \<notin> set []"
    by code_simp
  have h2: "(\<forall>token \<in> set [''cs''].
          \<not> str_includes (toLowerCase (lb_title (mkLibraryBook ''book-2'' ''art'' ''ME'' 1) @ '' ''
               @ lb_author (mkLibraryBook ''book-2'' ''art'' ''ME'' 1))) token)
        \<and> \<not> departmentMatches None (mkLibraryBook ''book-2'' ''art'' ''ME'' 1)
        \<and> lb_copies (mkLibraryBook ''book-2'' ''art'' ''ME'' 1) < 5"
    by code_simp
  from t e h1 h2 show ?thesis unfolding list_all_iff by blast
qed

subsection \<open>Ranking\<close>

lemma compareScored_le:
  "compareScored a b \<le> 0 \<longleftrightarrow>
     r_score b < r_score a \<or> (r_score a = r_score b \<and> r_availableCopies b \<le> r_availableCopies a)"
  by (auto simp: compareScored_def)

lemma sorted_js_sort_compareScored:
  "sorted_wrt (\<lambda>a b. compareScored a b \<le> 0) (js_sort compareScored xs)"
proof (rule sorted_js_sort)
  show "compareScored a b \<le> 0 \<or> compareScored b a \<le> 0" for a b
    unfolding compareScored_le by linarith
  show "compareScored a b \<le> 0 \<Longrightarrow> compareScored b c \<le> 0 \<Longrightarrow> compareScored a c \<le> 0" for a b c
    unfolding compareScored_le by linarith
qed

text \<open>
  Claim C5. The list of the scored path is \<open>slice(0, limit)\<close> of the enriched candidates
  sorted by the comparator: scores descend, and among equal scores the available copies
  descend. The sort only reorders: candidates that tie on both keys keep the order in
  which the candidate map lists them. For a limit from 0 the slice is the first \<open>limit\<close>
  entries, the limit being the supplied one or 6; a list that is not empty is what the
  call returns.
\<close>

theorem C5_scored_order:
  "sorted_wrt (\<lambda>a b. r_score b < r_score a
                      \<or> (r_score a = r_score b \<and> r_availableCopies b \<le> r_availableCopies a))
     (scoredItems_of w input user)
   \<and> (\<forall>s n. filter (\<lambda>r. r_score r = s \<and> r_availableCopies r = n)
               (js_sort compareScored (enriched_of w input user))
           = filter (\<lambda>r. r_score r = s \<and> r_availableCopies r = n) (enriched_of w input user))
   \<and> mset (js_sort compareScored (enriched_of w input user)) = mset (enriched_of w input user)
   \<and> scoredItems_of w input user =
        js_slice0 (js_sort compareScored (enriched_of w input user))
          (case limit input of None \<Rightarrow> 6 | Some n \<Rightarrow> n)
   \<and> (0 \<le> (case limit input of None \<Rightarrow> 6 | Some n \<Rightarrow> n) \<longrightarrow>
         scoredItems_of w input user =
           take (nat (case limit input of None \<Rightarrow> 6 | Some n \<Rightarrow> n))
             (js_sort compareScored (enriched_of w input user)))
   \<and> (findUser w (userId input) = Some user \<and> scoredItems_of w input user \<noteq> [] \<longrightarrow>
         items (fst (getPersonalizedRecommendations w input)) = scoredItems_of w input user)"
proof -
  let ?sorted = "js_sort compareScored (enriched_of w input user)"
  have "sorted_wrt (\<lambda>a b. compareScored a b \<le> 0) (js_slice0 ?sorted (resolveLimit input))"
    by (rule sorted_wrt_js_slice0) (rule sorted_js_sort_compareScored)
  then have 1: "sorted_wrt (\<lambda>a b. r_score b < r_score a
                      \<or> (r_score a = r_score b \<and> r_availableCopies b \<le> r_availableCopies a))
     (scoredItems_of w input user)"
    by (simp add: scoredItems_of_def compareScored_le)
  have 2: "filter (\<lambda>r. r_score r = s \<and> r_availableCopies r = n) ?sorted
           = filter (\<lambda>r. r_score r = s \<and> r_availableCopies r = n) (enriched_of w input user)" for s n
    by (rule stable_js_sort) (simp add: compareScored_def)
  have 3: "mset ?sorted = mset (enriched_of w input user)"
    by (rule mset_js_sort)
  have 4: "scoredItems_of w input user =
        js_slice0 ?sorted (case limit input of None \<Rightarrow> 6 | Some n \<Rightarrow> n)"
    by (simp add: scoredItems_of_def resolveLimit_def)
  have 5: "0 \<le> (case limit input of None \<Rightarrow> 6 | Some n \<Rightarrow> n) \<longrightarrow>
         scoredItems_of w input user =
           take (nat (case limit input of None \<Rightarrow> 6 | Some n \<Rightarrow> n)) ?sorted"
    unfolding 4 by (simp add: js_slice0_nonneg)
  have 6: "findUser w (userId input) = Some user \<and> scoredItems_of w input user \<noteq> [] \<longrightarrow>
         items (fst (getPersonalizedRecommendations w input)) = scoredItems_of w input user"
    using items_cases[of w input user] by auto
  from 1 2 3 4 5 6 show ?thesis by (intro conjI allI)
qed

theorem C5_scored_order_witness:
  "map (\<lambda>r. (r_id r, r_score r, r_availableCopies r))
       (items (fst (getPersonalizedRecommendations demoWorld demoInput)))
     = [(''b1'', 9, 2), (''b2'', 1, 5)]
   \<and> items (fst (getPersonalizedRecommendations demoWorld demoInput))
     = take 6 (js_sort compareScored (enriched_of demoWorld demoInput demoUser))
   \<and> sorted_wrt (\<lambda>a b. r_score b < r_score a
                      \<or> (r_score a = r_score b \<and> r_availableCopies b \<le> r_availableCopies a))
       (items (fst (getPersonalizedRecommendations demoWorld demoInput)))"
proof -
  note t = C5_scored_order[of demoWorld demoInput demoUser]
  have l: "(case limit demoInput of None \<Rightarrow> 6 | Some n \<Rightarrow> n) = (6::int)"
    by (simp add: demoInput_def)
  have u: "findUser demoWorld (userId demoInput) = Some demoUser"
    by code_simp
  have n: "scoredItems_of demoWorld demoInput demoUser \<noteq> []"
    by code_simp
  have e: "map (\<lambda>r. (r_id r, r_score r, r_availableCopies r))
       (items (fst (getPersonalizedRecommendations demoWorld demoInput)))
     = [(''b1'', 9, 2), (''b2'', 1, 5)]"
    by code_simp
  from t u n have i: "items (fst (getPersonalizedRecommendations demoWorld demoInput))
      = scoredItems_of demoWorld demoInput demoUser" by blast
  from t have k0: "0 \<le> (case limit demoInput of None \<Rightarrow> 6 | Some n \<Rightarrow> n) \<longrightarrow>
      scoredItems_of demoWorld demoInput demoUser
      = take (nat (case limit demoInput of None \<Rightarrow> 6 | Some n \<Rightarrow> n))
          (js_sort compareScored (enriched_of demoWorld demoInput demoUser))" by blast
  have k: "scoredItems_of demoWorld demoInput demoUser
      = take 6 (js_sort compareScored (enriched_of demoWorld demoInput demoUser))"
    using k0 unfolding l by simp
  from t have "sorted_wrt (\<lambda>a b. r_score b < r_score a
                      \<or> (r_score a = r_score b \<and> r_availableCopies b \<le> r_availableCopies a))
       (scoredItems_of demoWorld demoInput demoUser)" by blast
  with e i k show ?thesis by simp
qed











subsection \<open>The exclusion set\<close>

lemma set_foldl_exclude:
  "set (foldl (\<lambda>exclude borrowing.
                 if bw_bookId borrowing \<noteq> [] then set_add (bw_bookId borrowing) exclude
                 else exclude) acc bs)
   = set acc \<union> {bw_bookId b | b. b \<in> set bs \<and> bw_bookId b \<noteq> []}"
  by (induction bs arbitrary: acc) (auto simp: set_set_add)

lemma set_buildExcludeSet:
  "set (buildExcludeSet input bs)
   = set (case excludeBookIds input of None \<Rightarrow> [] | Some ids \<Rightarrow> ids)
     \<union> {bw_bookId b | b. b \<in> set bs \<and> bw_bookId b \<noteq> []}"
  by (simp add: buildExcludeSet_def set_foldl_exclude set_new_Set)

lemma fetchCandidateBooks_subset:
  "set (fetchCandidateBooks w cats dep ex n)
   \<subseteq> {c \<in> set (books w). 0 < b_availableCopies c \<and> b_id c \<notin> set ex}"
  unfolding fetchCandidateBooks_def Let_def
  by (rule subset_trans[OF set_prisma_take]) (auto simp: set_orderByDesc)

lemma fetchCandidateBooks_elem:
  assumes "c \<in> set (fetchCandidateBooks w cats dep ex n)"
  shows "c \<in> set (books w) \<and> 0 < b_availableCopies c \<and> b_id c \<notin> set ex"
  using assms fetchCandidateBooks_subset[of w cats dep ex n] by auto

lemma fallbackBooks_subset:
  "set (fallbackBooks_of w input user)
   \<subseteq> {c \<in> set (books w). 0 < b_availableCopies c
        \<and> b_id c \<notin> set (excludeIds_of w input user)}"
  unfolding fallbackBooks_of_def
  by (rule subset_trans[OF set_prisma_take]) (auto simp: set_orderByDesc)

lemma fallbackBooks_elem:
  assumes "c \<in> set (fallbackBooks_of w input user)"
  shows "c \<in> set (books w) \<and> 0 < b_availableCopies c
         \<and> b_id c \<notin> set (excludeIds_of w input user)"
  using assms fallbackBooks_subset[of w input user] by auto

lemma fetchBooksByIds_elem:
  assumes "c \<in> set (fetchBooksByIds w ids)"
  shows "c \<in> set (books w) \<and> b_id c \<in> set ids"
proof -
  let ?found = "filter (\<lambda>b. b_id b \<in> set ids) (books w)"
  let ?m = "foldl (\<lambda>m book. map_set (b_id book) book m) [] ?found"
  from assms have "c \<in> set (List.map_filter (map_get ?m) ids)"
    by (simp add: fetchBooksByIds_def Let_def split: if_splits)
  then obtain i where i: "i \<in> set ids" "map_of ?m i = Some c"
    by (auto simp: List.map_filter_def map_get_def)
  from i(2) have "(i, c) \<in> set ?m" by (rule map_of_SomeD)
  from foldl_map_set_entries[OF this] obtain c' where "c' \<in> set ?found" "(i, c) = (b_id c', c')"
    by auto
  with i(1) show ?thesis by auto
qed

lemma popularBooks_elem:
  assumes "c \<in> set (popularBooks_of w input user)"
  shows "c \<in> set (books w) \<and> b_id c \<notin> set (excludeIds_of w input user)"
proof -
  from fetchBooksByIds_elem[OF assms[unfolded popularBooks_of_def]]
  have c: "c \<in> set (books w)"
    and i: "b_id c \<in> set (js_slice0 (remainingPopularIds_of w input user) (resolveLimit input * 2))"
    by auto
  from i set_js_slice0[of "remainingPopularIds_of w input user" "resolveLimit input * 2"]
  have "b_id c \<in> set (remainingPopularIds_of w input user)" by auto
  then have "b_id c \<notin> set (excludeIds_of w input user)"
    by (simp add: remainingPopularIds_of_def)
  with c show ?thesis by simp
qed

lemma primaryMap_entries:
  assumes "e \<in> set (primaryMap_of w input user)"
  shows "snd e \<in> set (primaryCandidates_of w input user) \<and> fst e = b_id (snd e)"
  using foldl_map_set_entries[OF assms[unfolded primaryMap_of_def]] by auto

lemma fallbackMap_entries:
  assumes "e \<in> set (fallbackMap_of w input user)"
  shows "(snd e \<in> set (primaryCandidates_of w input user)
          \<or> snd e \<in> set (fallbackBooks_of w input user)) \<and> fst e = b_id (snd e)"
proof -
  from foldl_setIfAbsent_entries[OF assms[unfolded fallbackMap_of_def]]
  consider "e \<in> set (primaryMap_of w input user)"
    | c where "c \<in> set (fallbackBooks_of w input user)" "e = (b_id c, c)" by blast
  then show ?thesis
  proof cases
    case 1
    from primaryMap_entries[OF 1] show ?thesis by simp
  next
    case 2
    then show ?thesis by simp
  qed
qed

lemma candidateMap_entries:
  assumes "e \<in> set (candidateMap_of w input user)"
  shows "(snd e \<in> set (primaryCandidates_of w input user)
          \<or> snd e \<in> set (fallbackBooks_of w input user)
          \<or> snd e \<in> set (popularBooks_of w input user)) \<and> fst e = b_id (snd e)"
proof (cases "fallbackRuns w input user")
  case False
  with assms have "e \<in> set (primaryMap_of w input user)" by (simp add: candidateMap_of_def)
  from primaryMap_entries[OF this] show ?thesis by simp
next
  case True
  show ?thesis
  proof (cases "popularRuns w input user")
    case False
    with True assms have "e \<in> set (fallbackMap_of w input user)"
      by (simp add: candidateMap_of_def)
    from fallbackMap_entries[OF this] show ?thesis by blast
  next
    case p: True
    with True assms have "e \<in> set (foldl setIfAbsent (fallbackMap_of w input user)
        (popularBooks_of w input user))"
      by (simp add: candidateMap_of_def)
    from foldl_setIfAbsent_entries[OF this]
    consider "e \<in> set (fallbackMap_of w input user)"
      | c where "c \<in> set (popularBooks_of w input user)" "e = (b_id c, c)" by blast
    then show ?thesis
    proof cases
      case 1
      from fallbackMap_entries[OF 1] show ?thesis by blast
    next
      case 2
      then show ?thesis by simp
    qed
  qed
qed

lemma candidate_not_excluded:
  assumes "e \<in> set (candidateMap_of w input user)"
  shows "b_id (snd e) \<notin> set (excludeIds_of w input user)"
proof -
  from candidateMap_entries[OF assms]
  consider "snd e \<in> set (primaryCandidates_of w input user)"
    | "snd e \<in> set (fallbackBooks_of w input user)"
    | "snd e \<in> set (popularBooks_of w input user)" by blast
  then show ?thesis
  proof cases
    case 1
    from fetchCandidateBooks_elem[OF 1[unfolded primaryCandidates_of_def]]
    show ?thesis by simp
  next
    case 2
    from fallbackBooks_elem[OF 2] show ?thesis by simp
  next
    case 3
    from popularBooks_elem[OF 3] show ?thesis by simp
  qed
qed

lemma scoredItems_not_excluded:
  assumes "r \<in> set (scoredItems_of w input user)"
  shows "r_id r \<notin> set (excludeIds_of w input user)"
proof -
  from scoredItems_elem[OF assms] obtain k c where
    "(k, c) \<in> set (candidateMap_of w input user)" "r_id r = b_id c"
    by (auto simp: enrichCandidate_id)
  with candidate_not_excluded[of "(k, c)" w input user] show ?thesis by simp
qed

text \<open>
  Claim C2, as amended. The exclusion set is the caller's ids together with the
  non-empty book ids of the user's borrowings whose status is \<open>BORROWED\<close>, \<open>OVERDUE\<close> or
  \<open>RENEWED\<close>. No row of the primary tier, of the broad fallback tier or of the popularity
  top-up has an id in it, and so no item of the scored path has. The bridge tests the
  raw snapshot id: an item it returns has the id \<open>dataset-\<close> followed by a snapshot id
  that is not in the set. The prefixed id itself is not tested.
\<close>

theorem C2_exclusion_by_tier:
  assumes "findUser w (userId input) = Some user"
  shows "set (excludeIds_of w input user)
           = set (case excludeBookIds input of None \<Rightarrow> [] | Some ids \<Rightarrow> ids)
             \<union> {bw_bookId b | b. b \<in> set (borrowings w) \<and> bw_userId b = u_id user
                   \<and> bw_status b \<in> {''BORROWED'', ''OVERDUE'', ''RENEWED''}
                   \<and> bw_bookId b \<noteq> []}
         \<and> (\<forall>c \<in> set (primaryCandidates_of w input user).
               b_id c \<notin> set (excludeIds_of w input user))
         \<and> (\<forall>c \<in> set (fallbackBooks_of w input user).
               b_id c \<notin> set (excludeIds_of w input user))
         \<and> (\<forall>c \<in> set (popularBooks_of w input user).
               b_id c \<notin> set (excludeIds_of w input user))
         \<and> (\<forall>r \<in> set (scoredItems_of w input user).
               r_id r \<notin> set (excludeIds_of w input user))
         \<and> (\<forall>r \<in> set (datasetFallback_of w input user).
               \<exists>book::LibraryBook. r_id r = ''dataset-'' @ lb_id book
                 \<and> lb_id book \<notin> set (excludeIds_of w input user))
         \<and> (\<forall>r \<in> set (items (fst (getPersonalizedRecommendations w input))).
               r_id r \<notin> set (excludeIds_of w input user)
               \<or> (scoredItems_of w input user = []
                  \<and> (\<exists>book::LibraryBook. r_id r = ''dataset-'' @ lb_id book
                        \<and> lb_id book \<notin> set (excludeIds_of w input user))))"
proof -
  let ?E = "set (excludeIds_of w input user)"
  have 1: "?E = set (case excludeBookIds input of None \<Rightarrow> [] | Some ids \<Rightarrow> ids)
             \<union> {bw_bookId b | b. b \<in> set (borrowings w) \<and> bw_userId b = u_id user
                   \<and> bw_status b \<in> {''BORROWED'', ''OVERDUE'', ''RENEWED''}
                   \<and> bw_bookId b \<noteq> []}"
    unfolding excludeIds_of_def set_buildExcludeSet findActiveBorrowings_def by auto
  have 2: "\<forall>c \<in> set (primaryCandidates_of w input user). b_id c \<notin> ?E"
    unfolding primaryCandidates_of_def using fetchCandidateBooks_elem by blast
  have 3: "\<forall>c \<in> set (fallbackBooks_of w input user). b_id c \<notin> ?E"
    using fallbackBooks_elem by blast
  have 4: "\<forall>c \<in> set (popularBooks_of w input user). b_id c \<notin> ?E"
    using popularBooks_elem by blast
  have 5: "\<forall>r \<in> set (scoredItems_of w input user). r_id r \<notin> ?E"
    using scoredItems_not_excluded by blast
  have 6: "\<forall>r \<in> set (datasetFallback_of w input user).
               \<exists>book::LibraryBook. r_id r = ''dataset-'' @ lb_id book \<and> lb_id book \<notin> ?E"
  proof
    fix r assume "r \<in> set (datasetFallback_of w input user)"
    from buildDatasetFallback_elem[OF this[unfolded datasetFallback_of_def]]
    obtain book where "lb_id book \<notin> ?E"
      "r = toRecommendation (scoreBook (explicitInterests_of user)
             (interestTokens_of (explicitInterests_of user)) (userDepartment_of user) book)"
      by blast
    then have "r_id r = ''dataset-'' @ lb_id book \<and> lb_id book \<notin> ?E"
      by (simp add: toRecommendation_def Let_def scoreBook_book)
    then show "\<exists>book::LibraryBook. r_id r = ''dataset-'' @ lb_id book \<and> lb_id book \<notin> ?E" by blast
  qed
  have 7: "\<forall>r \<in> set (items (fst (getPersonalizedRecommendations w input))).
               r_id r \<notin> ?E
               \<or> (scoredItems_of w input user = []
                  \<and> (\<exists>book::LibraryBook. r_id r = ''dataset-'' @ lb_id book \<and> lb_id book \<notin> ?E))"
    using items_cases[OF assms] 5 6 by auto
  from 1 2 3 4 5 6 7 show ?thesis by (intro conjI)
qed

theorem C2_exclusion_by_tier_witness:
  "excludeIds_of demoWorld demoInput demoUser = [''h1'']
   \<and> map r_id (scoredItems_of demoWorld demoInput demoUser) = [''b1'', ''b2'']
   \<and> list_all (\<lambda>r. r_id r \<notin> set (excludeIds_of demoWorld demoInput demoUser))
       (scoredItems_of demoWorld demoInput demoUser)
   \<and> map r_id (datasetFallback_of bridgeWorld echoInput demoUser)
       = [''dataset-book-1'', ''dataset-book-2'']
   \<and> list_all (\<lambda>r. \<exists>book::LibraryBook. r_id r = ''dataset-'' @ lb_id book
                    \<and> lb_id book \<notin> set (excludeIds_of bridgeWorld echoInput demoUser))
       (datasetFallback_of bridgeWorld echoInput demoUser)"
proof -
  have u: "findUser demoWorld (userId demoInput) = Some demoUser"
    by code_simp
  have v: "findUser bridgeWorld (userId echoInput) = Some demoUser"
    by code_simp
  have e: "excludeIds_of demoWorld demoInput demoUser = [''h1'']
     \<and> map r_id (scoredItems_of demoWorld demoInput demoUser) = [''b1'', ''b2'']
     \<and> map r_id (datasetFallback_of bridgeWorld echoInput demoUser)
       = [''dataset-book-1'', ''dataset-book-2'']"
    by code_simp
  from C2_exclusion_by_tier[OF u] C2_exclusion_by_tier[OF v] e
  show ?thesis unfolding list_all_iff by blast
qed

text \<open>
  Claim C2 as stated fails on the bridge: with an empty book table the caller that
  excludes \<open>dataset-book-1\<close> is returned an item with that very id.
\<close>

theorem C2_counterexample:
  "excludeBookIds echoInput = Some [''dataset-book-1'']
   \<and> map r_id (items (fst (getPersonalizedRecommendations bridgeWorld echoInput)))
       = [''dataset-book-1'', ''dataset-book-2'']"
  by code_simp

subsection \<open>The broad fallback tier\<close>










subsection \<open>The signals of the scorer\<close>

lemma isNewArrival_iff:
  "isNewArrival_of n c \<longleftrightarrow> \<bar>n - b_addedAt c\<bar> \<le> 60 * 86400000"
proof -
  have "isNewArrival_of n c \<longleftrightarrow> \<bar>(of_int (n - b_addedAt c) :: rat) / 86400000\<bar> \<le> 60"
    by (simp add: isNewArrival_of_def differenceInDays_def NEW_ARRIVAL_DAYS_def Let_def)
  also have "\<dots> \<longleftrightarrow> \<bar>(of_int (n - b_addedAt c) :: rat)\<bar> \<le> 60 * 86400000"
    by (simp add: pos_divide_le_eq)
  also have "\<dots> \<longleftrightarrow> (of_int \<bar>n - b_addedAt c\<bar> :: rat) \<le> of_int (60 * 86400000)"
    by simp
  also have "\<dots> \<longleftrightarrow> \<bar>n - b_addedAt c\<bar> \<le> 60 * 86400000"
    by (simp only: of_int_le_iff)
  finally show ?thesis .
qed

lemma map_of_bump:
  "map_of (bump k m) = (map_of m)(k \<mapsto> (case map_of m k of None \<Rightarrow> 0 | Some n \<Rightarrow> n) + 1)"
  by (simp add: bump_def map_of_map_set map_get_def)

lemma distinct_bump: "distinct (map fst m) \<Longrightarrow> distinct (map fst (bump k m))"
  by (simp add: bump_def distinct_keys_map_set)

lemma countCategory_step:
  "map_of (countCategory m e) c
   = (if c \<noteq> [] \<and> map_option trim e = Some c
      then Some ((case map_of m c of None \<Rightarrow> 0 | Some n \<Rightarrow> n) + 1) else map_of m c)"
  by (cases e) (auto simp: countCategory_def map_of_bump)

lemma distinct_countCategory:
  "distinct (map fst m) \<Longrightarrow> distinct (map fst (countCategory m e))"
  by (cases e) (auto simp: countCategory_def distinct_bump)

lemma count_categories:
  assumes "distinct (map fst m0)"
  shows "distinct (map fst (foldl countCategory m0 h))
    \<and> map_of (foldl countCategory m0 h) c
          = (if c = [] \<or> count_list (map (map_option trim) h) (Some c) = 0 then map_of m0 c
             else Some ((case map_of m0 c of None \<Rightarrow> 0 | Some n \<Rightarrow> n)
                        + int (count_list (map (map_option trim) h) (Some c))))"
  using assms
proof (induction h arbitrary: m0)
  case Nil
  then show ?case by simp
next
  case (Cons e h)
  from Cons.prems have d: "distinct (map fst (countCategory m0 e))"
    by (rule distinct_countCategory)
  from Cons.IH[OF d] show ?case
    by (auto simp: countCategory_step split: option.splits)
qed

lemma set_collectTopCategoriesFromHistory:
  "set (collectTopCategoriesFromHistory h)
   = {c. c \<noteq> [] \<and> 2 \<le> count_list (map (map_option trim) h) (Some c)}"
proof -
  let ?counts = "foldl countCategory [] h"
  from count_categories[of "[]" h]
  have d: "distinct (map fst ?counts)"
    and m: "\<And>c. map_of ?counts c
          = (if c = [] \<or> count_list (map (map_option trim) h) (Some c) = 0 then None
             else Some (int (count_list (map (map_option trim) h) (Some c))))"
    by simp_all
  have "set (collectTopCategoriesFromHistory h) = {c. \<exists>n. (c, n) \<in> set ?counts \<and> 2 \<le> n}"
    by (auto simp: collectTopCategoriesFromHistory_def Let_def set_js_sort image_iff)
  also have "\<dots> = {c. \<exists>n. map_of ?counts c = Some n \<and> 2 \<le> n}"
    using d by simp
  also have "\<dots> = {c. c \<noteq> [] \<and> 2 \<le> count_list (map (map_option trim) h) (Some c)}"
    unfolding m by auto
  finally show ?thesis .
qed

lemma length_findRecentHistory: "length (findRecentHistory w user) \<le> 40"
  by (simp add: findRecentHistory_def prisma_take_def)

lemma popularIdSet_facts:
  "set (popularIdSet_of w) = set (take 20 (fetchPopularBookIds w))
   \<and> length (popularIdSet_of w) \<le> 20"
proof -
  have "length (popularIdSet_of w) \<le> length (js_slice0 (fetchPopularBookIds w) 20)"
    unfolding popularIdSet_of_def by (rule length_new_Set)
  then show ?thesis
    by (simp add: popularIdSet_of_def set_new_Set js_slice0_def)
qed

text \<open>
  Claim C4, as amended. The score of a candidate is the sum of the deltas of the signals
  that fire on it when at least one fires, and 1 when none does: 3 for a category among
  the explicit interests, 2 for a category among the derived categories, 2 for a
  non-empty affiliation equal to the department, 1 for an arrival within 60 days of the
  evaluation time, 1 for an id in the popular set. The reasons are one per fired signal,
  in that order and distinct, or the baseline reason alone. All five signals give score
  9 and 5 reasons. The derived categories are the non-empty trimmed categories found in
  at least 2 of the at most 40 history entries read; the popular set has at most 20 ids,
  those of the head of the popularity ranking.
\<close>

theorem C4_score_formula:
  "r_score (enrichCandidate nowDate cx popular derived c) =
     (let s = (if b_category c \<in> set (c_explicitInterests cx) then 3 else 0)
            + (if b_category c \<in> set derived then 2 else 0)
            + (if truthy (c_department cx) \<and> Some (b_department c) = c_department cx
               then 2 else 0)
            + (if \<bar>nowDate - b_addedAt c\<bar> \<le> 60 * 86400000 then 1 else 0)
            + (if b_id c \<in> set popular then 1 else 0)
      in if s = 0 then 1 else s)
   \<and> r_reasons (enrichCandidate nowDate cx popular derived c) =
     (let rs = (if b_category c \<in> set (c_explicitInterests cx)
                then [''Matches your interest in '' @ b_category c] else [])
             @ (if b_category c \<in> set derived
                then [''You often borrow '' @ b_category c @ '' titles''] else [])
             @ (if truthy (c_department cx) \<and> Some (b_department c) = c_department cx
                then [''From your department collection''] else [])
             @ (if \<bar>nowDate - b_addedAt c\<bar> \<le> 60 * 86400000
                then [''New arrival this term''] else [])
             @ (if b_id c \<in> set popular then [''Popular with other students''] else [])
      in if rs = [] then [''Handpicked by the library team''] else rs)
   \<and> distinct (r_reasons (enrichCandidate nowDate cx popular derived c))
   \<and> (b_category c \<in> set (c_explicitInterests cx) \<and> b_category c \<in> set derived
        \<and> truthy (c_department cx) \<and> Some (b_department c) = c_department cx
        \<and> \<bar>nowDate - b_addedAt c\<bar> \<le> 60 * 86400000 \<and> b_id c \<in> set popular
      \<longrightarrow> r_score (enrichCandidate nowDate cx popular derived c) = 9
          \<and> length (r_reasons (enrichCandidate nowDate cx popular derived c)) = 5)
   \<and> enriched_of w input user =
       map (enrichCandidate (enrichNow w)
              \<lparr> c_explicitInterests = explicitInterests_of user,
                c_derivedCategories = derivedCategories_of w user,
                c_department = userDepartment_of user,
                c_fallbackUsed = fallbackRuns w input user \<rparr>
              (popularIdSet_of w) (new_Set (derivedCategories_of w user)))
         (map snd (candidateMap_of w input user))
   \<and> set (new_Set (derivedCategories_of w user))
       = {k. k \<noteq> [] \<and> 2 \<le> count_list (map (map_option trim) (findRecentHistory w user)) (Some k)}
   \<and> length (findRecentHistory w user) \<le> 40
   \<and> set (popularIdSet_of w) = set (take 20 (fetchPopularBookIds w))
   \<and> length (popularIdSet_of w) \<le> 20"
proof -
  have 1: "r_score (enrichCandidate nowDate cx popular derived c) =
     (let s = (if b_category c \<in> set (c_explicitInterests cx) then 3 else 0)
            + (if b_category c \<in> set derived then 2 else 0)
            + (if truthy (c_department cx) \<and> Some (b_department c) = c_department cx
               then 2 else 0)
            + (if \<bar>nowDate - b_addedAt c\<bar> \<le> 60 * 86400000 then 1 else 0)
            + (if b_id c \<in> set popular then 1 else 0)
      in if s = 0 then 1 else s)"
    unfolding enrichCandidate_score isNewArrival_iff ..
  have 2: "r_reasons (enrichCandidate nowDate cx popular derived c) =
     (let rs = (if b_category c \<in> set (c_explicitInterests cx)
                then [''Matches your interest in '' @ b_category c] else [])
             @ (if b_category c \<in> set derived
                then [''You often borrow '' @ b_category c @ '' titles''] else [])
             @ (if truthy (c_department cx) \<and> Some (b_department c) = c_department cx
                then [''From your department collection''] else [])
             @ (if \<bar>nowDate - b_addedAt c\<bar> \<le> 60 * 86400000
                then [''New arrival this term''] else [])
             @ (if b_id c \<in> set popular then [''Popular with other students''] else [])
      in if rs = [] then [''Handpicked by the library team''] else rs)"
    unfolding enrichCandidate_reasons isNewArrival_iff ..
  have 3: "distinct (r_reasons (enrichCandidate nowDate cx popular derived c))"
    using enrichCandidate_inv by blast
  have 4: "r_score (enrichCandidate nowDate cx popular derived c) = 9
          \<and> length (r_reasons (enrichCandidate nowDate cx popular derived c)) = 5"
    if "b_category c \<in> set (c_explicitInterests cx) \<and> b_category c \<in> set derived
        \<and> truthy (c_department cx) \<and> Some (b_department c) = c_department cx
        \<and> \<bar>nowDate - b_addedAt c\<bar> \<le> 60 * 86400000 \<and> b_id c \<in> set popular"
    unfolding 1 2 using that by simp
  have 5: "enriched_of w input user =
       map (enrichCandidate (enrichNow w)
              \<lparr> c_explicitInterests = explicitInterests_of user,
                c_derivedCategories = derivedCategories_of w user,
                c_department = userDepartment_of user,
                c_fallbackUsed = fallbackRuns w input user \<rparr>
              (popularIdSet_of w) (new_Set (derivedCategories_of w user)))
         (map snd (candidateMap_of w input user))"
    by (simp add: enriched_of_def enrichCandidates_def)
  have 6: "set (new_Set (derivedCategories_of w user))
       = {k. k \<noteq> [] \<and> 2 \<le> count_list (map (map_option trim) (findRecentHistory w user)) (Some k)}"
    by (simp add: set_new_Set derivedCategories_of_def set_collectTopCategoriesFromHistory)
  from 1 2 3 4 5 6 length_findRecentHistory[of w user] popularIdSet_facts[of w]
  show ?thesis by (intro conjI impI) blast+
qed

theorem C4_score_formula_witness:
  "r_score (enrichCandidate (enrichNow demoWorld)
       \<lparr> c_explicitInterests = [''CS''], c_derivedCategories = [''CS''],
         c_department = Some ''CE'', c_fallbackUsed = True \<rparr>
       [''h1'', ''b1''] [''CS''] (mkBook ''b1'' ''CS'' ''CE'' 2 (990 * msPerDay))) = 9
   \<and> length (r_reasons (enrichCandidate (enrichNow demoWorld)
       \<lparr> c_explicitInterests = [''CS''], c_derivedCategories = [''CS''],
         c_department = Some ''CE'', c_fallbackUsed = True \<rparr>
       [''h1'', ''b1''] [''CS''] (mkBook ''b1'' ''CS'' ''CE'' 2 (990 * msPerDay)))) = 5
   \<and> map r_score (enriched_of demoWorld demoInput demoUser) = [9, 1]"
proof -
  have h: "b_category (mkBook ''b1'' ''CS'' ''CE'' 2 (990 * msPerDay))
        \<in> set (c_explicitInterests \<lparr> c_explicitInterests = [''CS''],
              c_derivedCategories = [''CS''], c_department = Some ''CE'',
              c_fallbackUsed = True \<rparr>)
      \<and> b_category (mkBook ''b1'' ''CS'' ''CE'' 2 (990 * msPerDay)) \<in> set [''CS'']
      \<and> truthy (c_department \<lparr> c_explicitInterests = [''CS''],
              c_derivedCategories = [''CS''], c_department = Some ''CE'',
              c_fallbackUsed = True \<rparr>)
      \<and> Some (b_department (mkBook ''b1'' ''CS'' ''CE'' 2 (990 * msPerDay)))
          = c_department \<lparr> c_explicitInterests = [''CS''],
              c_derivedCategories = [''CS''], c_department = Some ''CE'',
              c_fallbackUsed = True \<rparr>
      \<and> \<bar>enrichNow demoWorld - b_addedAt (mkBook ''b1'' ''CS'' ''CE'' 2 (990 * msPerDay))\<bar>
          \<le> 60 * 86400000
      \<and> b_id (mkBook ''b1'' ''CS'' ''CE'' 2 (990 * msPerDay)) \<in> set [''h1'', ''b1'']"
    by code_simp
  have e: "map r_score (enriched_of demoWorld demoInput demoUser) = [9, 1]"
    by code_simp
  from C4_score_formula[of "enrichNow demoWorld"
      "\<lparr> c_explicitInterests = [''CS''], c_derivedCategories = [''CS''],
         c_department = Some ''CE'', c_fallbackUsed = True \<rparr>"
      "[''h1'', ''b1'']" "[''CS'']" "mkBook ''b1'' ''CS'' ''CE'' 2 (990 * msPerDay)"
      demoWorld demoInput demoUser] h e
  show ?thesis by blast
qed

text \<open>
  Claim C4 as stated fails on a candidate without any signal: book \<open>b2\<close> of the concrete
  library has another category and department, arrived 1000 days ago and is not
  popular, so the sum of the five deltas is 0, and the code scores it 1.
\<close>

theorem C4_counterexample:
  "spec_score (enrichNow demoWorld) [''CS''] [''CS''] (Some ''CE'') [''h1'', ''b1'']
       (mkBook ''b2'' ''Art'' ''ME'' 5 0) = 0
   \<and> r_score (enrichCandidate (enrichNow demoWorld)
       \<lparr> c_explicitInterests = [''CS''], c_derivedCategories = [''CS''],
         c_department = Some ''CE'', c_fallbackUsed = True \<rparr>
       [''h1'', ''b1''] [''CS''] (mkBook ''b2'' ''Art'' ''ME'' 5 0)) = 1
   \<and> map (\<lambda>r. (r_id r, r_score r)) (items (fst (getPersonalizedRecommendations demoWorld demoInput)))
       = [(''b1'', 9), (''b2'', 1)]"
  by code_simp

end
